theory Spec2Isabelle
  imports Complex_Main "HOL-Library.AList"
begin

section \<open>Values thrown by the handlers\<close>

text \<open>
  A JavaScript \<^verbatim>\<open>throw\<close> is a result \<open>Inl\<close>; a normal return is \<open>Inr\<close>.
  Every error the handlers raise is \<^verbatim>\<open>new Error(message)\<close>; the one other value that
  can be thrown is \<^verbatim>\<open>undefined\<close> (\<^verbatim>\<open>throw lastErr\<close> before any attempt was made).
\<close>

datatype exn = Error string | Thrown_undefined

section \<open>Validator\<close>

text \<open>
  Strings are lists of 8-bit characters. The regular expression class \<^verbatim>\<open>\d\<close> is the
  ten ASCII digits, \<^verbatim>\<open>\D\<close> its complement.
\<close>

definition is_digit :: "char \<Rightarrow> bool" where
  "is_digit c = (c \<in> set ''0123456789'')"

text \<open>\<^verbatim>\<open>p.startsWith(s)\<close>\<close>

definition startsWith :: "string \<Rightarrow> string \<Rightarrow> bool" where
  "startsWith p s = (take (length s) p = s)"

text \<open>\<^verbatim>\<open>/^\d{11,15}$/.test(p)\<close>\<close>

definition test_11_15_digits :: "string \<Rightarrow> bool" where
  "test_11_15_digits p = (list_all is_digit p \<and> 11 \<le> length p \<and> length p \<le> 15)"

text \<open>
  \<^verbatim>\<open>
  function validatePhone(phone) {
    let p = String(phone).replace(/\D/g, "");
    if (p.startsWith("0")) p = "27" + p.slice(1);
    if (!/^\d{11,15}$/.test(p)) throw new Error("Invalid phone number");
    return "+" + p;
  }
  \<close>
\<close>

definition validatePhone :: "string \<Rightarrow> exn + string" where
  "validatePhone phone =
     (let p = filter is_digit phone;
          p = (if startsWith p ''0'' then ''27'' @ drop 1 p else p)
      in if \<not> test_11_15_digits p then Inl (Error ''Invalid phone number'')
         else Inr (''+'' @ p))"

text \<open>
  The normalisation as the specification words it: strip every non-digit; replace a
  leading trunk prefix 0 by the country code 27; fail unless 11 to 15 digits remain;
  prepend a plus sign.
\<close>

definition normalizePhone :: "string \<Rightarrow> exn + string" where
  "normalizePhone raw =
     (let digits = filter is_digit raw;
          digits = (case digits of
                      [] \<Rightarrow> []
                    | c # rest \<Rightarrow> if c = CHR ''0'' then ''27'' @ rest else digits)
      in if 11 \<le> length digits \<and> length digits \<le> 15 then Inr (CHR ''+'' # digits)
         else Inl (Error ''Invalid phone number''))"

text \<open>
  The character class \<^verbatim>\<open>\s\<close>, as far as 8-bit characters reach: tab, line feed,
  vertical tab, form feed, carriage return, space and the no-break space.
\<close>

definition is_space :: "char \<Rightarrow> bool" where
  "is_space c = (of_char c \<in> set [9, 10, 11, 12, 13, 32, 160 :: nat])"

text \<open>The class \<^verbatim>\<open>[^\s@]\<close>.\<close>

definition not_space_at :: "char \<Rightarrow> bool" where
  "not_space_at c = (\<not> is_space c \<and> c \<noteq> CHR ''@'')"

text \<open>
  \<^verbatim>\<open>/^[^\s@]+@[^\s@]+\.[^\s@]+$/.test(email)\<close>: since the class excludes the at sign, the
  local part is what stands before the first at sign, and what follows it has to split
  around some dot into two non-empty runs of the class.
\<close>

definition test_email :: "string \<Rightarrow> bool" where
  "test_email email =
     (let local = takeWhile (\<lambda>c. c \<noteq> CHR ''@'') email;
          rest = dropWhile (\<lambda>c. c \<noteq> CHR ''@'') email;
          domain = drop 1 rest
      in local \<noteq> [] \<and> list_all not_space_at local \<and> rest \<noteq> [] \<and>
         list_all not_space_at domain \<and> CHR ''.'' \<in> set (butlast (drop 1 domain)))"

text \<open>
  \<^verbatim>\<open>
  function validateEmail(email) {
    const re = /^[^\s@]+@[^\s@]+\.[^\s@]+$/;
    if (!re.test(email)) throw new Error("Invalid email address");
    return email;
  }
  \<close>
\<close>

definition validateEmail :: "string \<Rightarrow> exn + string" where
  "validateEmail email =
     (if \<not> test_email email then Inl (Error ''Invalid email address'') else Inr email)"

section \<open>Bookings and the document store\<close>

text \<open>
  A booking is a schemaless document: every field may be absent (\<open>None\<close>, JavaScript's
  \<^verbatim>\<open>undefined\<close>). Prices and amounts are JavaScript numbers, modelled as exact rationals;
  timestamps are only compared, and modelled as natural numbers.
\<close>

type_synonym timestamp = nat

record booking =
  style :: "string option"
  length_b :: "string option"
  price :: "rat option"
  clientName :: "string option"
  clientPhone :: "string option"
  clientEmail :: "string option"
  date :: "string option"
  time :: "string option"
  method_b :: "string option"
  status :: "string option"
  paymentStatus :: "string option"
  createdAt :: "timestamp option"
  verified :: "bool option"
  depositPaid :: "rat option"
  receiptEmailSent :: "bool option"
  reminderSent :: "bool option"
  reminderAt :: "timestamp option"

text \<open>The collection \<^verbatim>\<open>bookings\<close>: documents by id, in the order a query returns them.\<close>

type_synonym store = "(string \<times> booking) list"

section \<open>Effects and external services\<close>

text \<open>The argument of \<^verbatim>\<open>messages.create\<close>.\<close>

record sms =
  msg_body :: string
  msg_from :: "string option"
  msg_to :: "string option"

text \<open>The request to \<^verbatim>\<open>https://api.paystack.co/transaction/initialize\<close> and the data of its response.\<close>

record init_request =
  init_email :: "string option"
  init_amount :: "int option"
  init_bookingId :: string
  init_authorization :: string

record init_response =
  authorization_url :: string
  access_code :: string
  reference :: string

text \<open>
  What a handler does to the outside world, in the order it does it: a call of the
  messaging API with its outcome, a pause, a write reaching the \<^verbatim>\<open>bookings\<close> collection,
  a call of the payment gateway with its outcome. Console output is not recorded.
\<close>

datatype effect =
    Twilio_create sms "exn + string"
  | Sleep nat
  | Db_write string
  | Paystack_initialize init_request "exn + init_response"

text \<open>
  The collaborators that are not part of the repository, as an injected service object:
  the keyed digest \<^verbatim>\<open>crypto.createHmac("sha512", key).update(data).digest("hex")\<close>, the
  outcome of a \<^verbatim>\<open>messages.create\<close> call (resolved with a message id or rejected, which may
  depend on everything that happened before), the outcome of the gateway call, the id
  the store gives a new document, and \<^verbatim>\<open>Math.round(price * 100)\<close>, whose product is rounded
  in IEEE double arithmetic before it is rounded to an integer: that arithmetic is not
  modelled, and the result is taken as a function of the price.
\<close>

record services =
  hmac_sha512_hex :: "string \<Rightarrow> string \<Rightarrow> string"
  twilio :: "effect list \<Rightarrow> sms \<Rightarrow> exn + string"
  paystack :: "effect list \<Rightarrow> init_request \<Rightarrow> exn + init_response"
  auto_id :: "store \<Rightarrow> string"
  round_x100 :: "rat \<Rightarrow> int"

text \<open>\<^verbatim>\<open>process.env\<close>: a variable may be unset.\<close>

record env =
  PAYSTACK_SECRET :: "string option"
  TWILIO_SMS :: "string option"

record world =
  bookings :: store
  trace :: "effect list"

text \<open>\<^verbatim>\<open>String(v)\<close> and template interpolation \<^verbatim>\<open>${v}\<close> of a string that may be undefined.\<close>

definition js_String :: "string option \<Rightarrow> string" where
  "js_String v = (case v of None \<Rightarrow> ''undefined'' | Some s \<Rightarrow> s)"

section \<open>Notifier\<close>

text \<open>\<^verbatim>\<open>twilioClient().messages.create(m)\<close>: one outbound call, recorded with its outcome.\<close>

definition messages_create :: "services \<Rightarrow> sms \<Rightarrow> world \<Rightarrow> (exn + string) \<times> world" where
  "messages_create sv m w =
     (let r = twilio sv (trace w) m
      in (r, w\<lparr>trace := trace w @ [Twilio_create m r]\<rparr>))"

text \<open>\<^verbatim>\<open>const sleep = (ms) => new Promise((r) => setTimeout(r, ms));\<close>\<close>

definition sleep :: "nat \<Rightarrow> world \<Rightarrow> world" where
  "sleep ms w = w\<lparr>trace := trace w @ [Sleep ms]\<rparr>"

text \<open>
  \<^verbatim>\<open>
  async function sendWithRetry(sendFn, attempts = 3) {
    let lastErr;
    for (let i = 1; i <= attempts; i++) {
      try {
        return await sendFn();
      } catch (err) {
        lastErr = err;
        console.error(`Attempt ${i} failed:`, err.message);
        if (i < attempts) await sleep(2 ** i * 500); // exponential backoff
      }
    }
    throw lastErr;
  }
  \<close>
  The loop, from the value \<open>i\<close> of its counter on.
\<close>

function sendWithRetry_loop ::
  "(world \<Rightarrow> (exn + 'a) \<times> world) \<Rightarrow> nat \<Rightarrow> nat \<Rightarrow> exn option \<Rightarrow> world \<Rightarrow> (exn + 'a) \<times> world"
where
  "sendWithRetry_loop sendFn attempts i lastErr w =
     (if i \<le> attempts then
        (case sendFn w of
           (Inr r, w') \<Rightarrow> (Inr r, w')
         | (Inl err, w') \<Rightarrow>
             sendWithRetry_loop sendFn attempts (i + 1) (Some err)
               (if i < attempts then sleep (2 ^ i * 500) w' else w'))
      else (Inl (case lastErr of None \<Rightarrow> Thrown_undefined | Some e \<Rightarrow> e), w))"
  by pat_completeness auto
termination
  by (relation "measure (\<lambda>(sendFn, attempts, i, lastErr, w). attempts + 1 - i)") auto

definition sendWithRetry ::
  "(world \<Rightarrow> (exn + 'a) \<times> world) \<Rightarrow> nat \<Rightarrow> world \<Rightarrow> (exn + 'a) \<times> world"
where
  "sendWithRetry sendFn attempts w = sendWithRetry_loop sendFn attempts 1 None w"

definition TWILIO_WHATSAPP :: string where
  "TWILIO_WHATSAPP = ''whatsapp:+14155238886''"

text \<open>
  \<^verbatim>\<open>
  async function sendSms(phone, message) {
    return sendWithRetry(() =>
      twilioClient().messages.create({ body: message, from: process.env.TWILIO_SMS, to: phone }));
  }
  async function sendWhatsApp(phone, message) {
    return sendWithRetry(() =>
      twilioClient().messages.create({ body: message, from: TWILIO_WHATSAPP, to: "whatsapp:" + phone }));
  }
  \<close>
\<close>

definition sendSms ::
  "services \<Rightarrow> env \<Rightarrow> string option \<Rightarrow> string \<Rightarrow> world \<Rightarrow> (exn + string) \<times> world"
where
  "sendSms sv e phone message =
     sendWithRetry
       (messages_create sv \<lparr>msg_body = message, msg_from = TWILIO_SMS e, msg_to = phone\<rparr>) 3"

definition sendWhatsApp ::
  "services \<Rightarrow> env \<Rightarrow> string option \<Rightarrow> string \<Rightarrow> world \<Rightarrow> (exn + string) \<times> world"
where
  "sendWhatsApp sv e phone message =
     sendWithRetry
       (messages_create sv
          \<lparr>msg_body = message, msg_from = Some TWILIO_WHATSAPP,
           msg_to = Some (''whatsapp:'' @ js_String phone)\<rparr>) 3"

section \<open>Booking store\<close>

text \<open>
  \<^verbatim>\<open>db.collection("bookings").add(doc)\<close>. The client of the store validates the object it
  is given before anything is written: a key whose value is \<^verbatim>\<open>undefined\<close> makes it throw
  (the setting \<^verbatim>\<open>ignoreUndefinedProperties\<close>, which would drop such keys, is never enabled
  in the repository). Otherwise it creates the document under a new id, and fails when
  the id is taken. The keys of the object with an undefined value are given by name, in
  the order of the object; a key that is not in the object at all is simply an absent
  field of the document.
\<close>

definition undefined_value_error :: "string \<Rightarrow> exn" where
  "undefined_value_error field =
     Error (''Cannot use undefined as a Firestore value (found in field '' @ field @ '')'')"

definition undefined_keys :: "(string \<times> bool) list \<Rightarrow> string list" where
  "undefined_keys keys = map fst (filter (\<lambda>(key, is_undefined). is_undefined) keys)"

definition collection_add ::
  "services \<Rightarrow> string list \<Rightarrow> booking \<Rightarrow> world \<Rightarrow> (exn + string) \<times> world"
where
  "collection_add sv undefined_fields doc w =
     (case undefined_fields of
        field # _ \<Rightarrow> (Inl (undefined_value_error field), w)
      | [] \<Rightarrow>
          (let docId = auto_id sv (bookings w)
           in case map_of (bookings w) docId of
                Some _ \<Rightarrow> (Inl (Error ''ALREADY_EXISTS''), w)
              | None \<Rightarrow>
                  (Inr docId,
                   w\<lparr>bookings := bookings w @ [(docId, doc)],
                     trace := trace w @ [Db_write docId]\<rparr>)))"

text \<open>A write of some fields of the document \<open>docId\<close> reaching the store.\<close>

definition apply_write :: "string \<Rightarrow> (booking \<Rightarrow> booking) \<Rightarrow> world \<Rightarrow> world" where
  "apply_write docId f w =
     w\<lparr>bookings := AList.map_entry docId f (bookings w), trace := trace w @ [Db_write docId]\<rparr>"

text \<open>\<^verbatim>\<open>doc.ref.update(fields)\<close> fails when the document does not exist.\<close>

definition doc_update :: "string \<Rightarrow> (booking \<Rightarrow> booking) \<Rightarrow> world \<Rightarrow> (exn + unit) \<times> world" where
  "doc_update docId f w =
     (case map_of (bookings w) docId of
        None \<Rightarrow> (Inl (Error ''NOT_FOUND''), w)
      | Some _ \<Rightarrow> (Inr (), apply_write docId f w))"

text \<open>
  \<^verbatim>\<open>db.runTransaction(updateFunction)\<close>: the function reads through \<^verbatim>\<open>tx.get\<close> and stages its
  writes with \<^verbatim>\<open>tx.update\<close>; the staged writes reach the store, together, when the function
  returns, and none does when it throws. The effects the function has on the outside
  world happen when it runs, committed or not. Requests are handled one at a time here,
  so the transaction is never re-run because of a concurrent write.
\<close>

type_synonym tx_writes = "(string \<times> (booking \<Rightarrow> booking)) list"

definition tx_get :: "string \<Rightarrow> world \<Rightarrow> booking option" where
  "tx_get docId w = map_of (bookings w) docId"

definition runTransaction ::
  "(world \<Rightarrow> (exn + tx_writes) \<times> world) \<Rightarrow> world \<Rightarrow> (exn + unit) \<times> world"
where
  "runTransaction updateFunction w =
     (case updateFunction w of
        (Inl err, w') \<Rightarrow> (Inl err, w')
      | (Inr writes, w') \<Rightarrow>
          if list_all (\<lambda>(docId, f). map_of (bookings w') docId \<noteq> None) writes
          then (Inr (), foldl (\<lambda>w (docId, f). apply_write docId f w) w' writes)
          else (Inl (Error ''NOT_FOUND''), w'))"

section \<open>Payment initiator\<close>

text \<open>The fields of \<^verbatim>\<open>req.data\<close>; a field the caller left out is \<open>None\<close>.\<close>

record booking_input =
  in_style :: "string option"
  in_length :: "string option"
  in_price :: "rat option"
  in_clientName :: "string option"
  in_clientPhone :: "string option"
  in_date :: "string option"
  in_time :: "string option"
  in_method :: "string option"
  in_email :: "string option"

text \<open>
  The test \<^verbatim>\<open>!v\<close>: true of an undefined value, of the empty string and of the number zero.
\<close>

definition falsy_str :: "string option \<Rightarrow> bool" where
  "falsy_str v = (case v of None \<Rightarrow> True | Some s \<Rightarrow> s = [])"

definition falsy_num :: "rat option \<Rightarrow> bool" where
  "falsy_num v = (case v of None \<Rightarrow> True | Some n \<Rightarrow> n = 0)"

text \<open>
  \<^verbatim>\<open>Math.round(price * 100)\<close>: what the double arithmetic gives for a price; not a number
  (\<open>None\<close>) for an undefined price.
\<close>

definition Math_round_x100 :: "services \<Rightarrow> rat option \<Rightarrow> int option" where
  "Math_round_x100 sv v = (case v of None \<Rightarrow> None | Some n \<Rightarrow> Some (round_x100 sv n))"

text \<open>
  \<^verbatim>\<open>
  async (req) => {
    const { style, length, price, clientName, clientPhone, date, time, method, email } = req.data;
    if (!style || !length || !price || !clientName || !clientPhone || !date || !time || !email) {
      throw new Error("Missing required fields");
    }
    const bookingRef = await db.collection("bookings").add({
      style, length, price, clientName,
      clientPhone: validatePhone(clientPhone),
      clientEmail: validateEmail(email),
      date, time, method,
      status: "Pending",
      paymentStatus: "Unpaid",
      createdAt: admin.firestore.FieldValue.serverTimestamp(),
    });
    const response = await axios.post(
      "https://api.paystack.co/transaction/initialize",
      { email, amount: Math.round(price * 100), metadata: { bookingId: bookingRef.id } },
      { headers: { Authorization: `Bearer ${process.env.PAYSTACK_SECRET}` } }
    );
    return { authorization_url: response.data.data.authorization_url };
  }
  \<close>
  The server's time at the write is the argument \<open>now\<close>. Of the keys of the object given
  to \<^verbatim>\<open>add\<close>, those that are copied from the request can be undefined; the phone, the
  email, the two statuses and the time stamp are always defined.
\<close>

definition createBooking ::
  "services \<Rightarrow> env \<Rightarrow> timestamp \<Rightarrow> booking_input \<Rightarrow> world \<Rightarrow> (exn + string) \<times> world"
where
  "createBooking sv e now i w =
     (if falsy_str (in_style i) \<or> falsy_str (in_length i) \<or> falsy_num (in_price i) \<or>
         falsy_str (in_clientName i) \<or> falsy_str (in_clientPhone i) \<or> falsy_str (in_date i) \<or>
         falsy_str (in_time i) \<or> falsy_str (in_email i)
      then (Inl (Error ''Missing required fields''), w)
      else
        case validatePhone (js_String (in_clientPhone i)) of
          Inl err \<Rightarrow> (Inl err, w)
        | Inr phone \<Rightarrow>
            (case validateEmail (js_String (in_email i)) of
               Inl err \<Rightarrow> (Inl err, w)
             | Inr email \<Rightarrow>
                 (case collection_add sv
                         (undefined_keys
                            [(''style'', in_style i = None), (''length'', in_length i = None),
                             (''price'', in_price i = None),
                             (''clientName'', in_clientName i = None),
                             (''date'', in_date i = None), (''time'', in_time i = None),
                             (''method'', in_method i = None)])
                         \<lparr>style = in_style i, length_b = in_length i, price = in_price i,
                          clientName = in_clientName i, clientPhone = Some phone,
                          clientEmail = Some email, date = in_date i, time = in_time i,
                          method_b = in_method i, status = Some ''Pending'',
                          paymentStatus = Some ''Unpaid'', createdAt = Some now,
                          verified = None, depositPaid = None, receiptEmailSent = None,
                          reminderSent = None, reminderAt = None\<rparr> w of
                    (Inl err, w1) \<Rightarrow> (Inl err, w1)
                  | (Inr bookingRef_id, w1) \<Rightarrow>
                      (let request =
                             \<lparr>init_email = in_email i, init_amount = Math_round_x100 sv (in_price i),
                              init_bookingId = bookingRef_id,
                              init_authorization = ''Bearer '' @ js_String (PAYSTACK_SECRET e)\<rparr>;
                           response = paystack sv (trace w1) request;
                           w2 = w1\<lparr>trace := trace w1 @ [Paystack_initialize request response]\<rparr>
                       in case response of
                            Inl err \<Rightarrow> (Inl err, w2)
                          | Inr d \<Rightarrow> (Inr (authorization_url d), w2)))))"

section \<open>Webhook handler\<close>

text \<open>The parsed body of a webhook request, and the request.\<close>

record metadata =
  bookingId :: "string option"

record charge_data =
  metadata :: "metadata option"
  amount :: rat

record paystack_event =
  event :: string
  data :: "charge_data option"

record request =
  req_method :: string
  x_paystack_signature :: "string option"
  rawBody :: string
  body :: paystack_event

text \<open>The emoji of the message templates, as their UTF-8 bytes.\<close>

definition check_mark :: string where
  "check_mark = [char_of (0xE2 :: nat), char_of (0x9C :: nat), char_of (0x85 :: nat)]"

definition calendar :: string where
  "calendar = [char_of (0xF0 :: nat), char_of (0x9F :: nat), char_of (0x93 :: nat), char_of (0x85 :: nat)]"

definition clock :: string where
  "clock = [char_of (0xF0 :: nat), char_of (0x9F :: nat), char_of (0x95 :: nat), char_of (0x92 :: nat)]"

definition alarm_clock :: string where
  "alarm_clock = [char_of (0xE2 :: nat), char_of (0x8F :: nat), char_of (0xB0 :: nat)]"

definition newline :: string where
  "newline = [char_of (10 :: nat)]"

definition confirmation_message :: "booking \<Rightarrow> string" where
  "confirmation_message b =
     check_mark @ '' Booking confirmed!'' @ newline @
     ''Hi '' @ js_String (clientName b) @ '', your '' @ js_String (style b) @
     '' ('' @ js_String (length_b b) @ '') appointment is confirmed.'' @ newline @
     calendar @ '' '' @ js_String (date b) @ newline @
     clock @ '' '' @ js_String (time b)"

text \<open>
  The function given to \<^verbatim>\<open>db.runTransaction\<close>:
  \<^verbatim>\<open>
  async (tx) => {
    const snap = await tx.get(bookingRef);
    const booking = snap.data();
    if (!booking || booking.paymentStatus === "Paid") return;
    tx.update(bookingRef, {
      paymentStatus: "Paid",
      verified: true,
      depositPaid: event.data.amount / 100,
      status: "Accepted",
      receiptEmailSent: false,
    });
    const message = `... Booking confirmed! ...`;
    if (booking.method === "whatsapp")
      await sendWhatsApp(booking.clientPhone, message);
    else await sendSms(booking.clientPhone, message);
  }
  \<close>
\<close>

definition mark_paid :: "rat \<Rightarrow> booking \<Rightarrow> booking" where
  "mark_paid event_amount b =
     b\<lparr>paymentStatus := Some ''Paid'', verified := Some True,
       depositPaid := Some (event_amount / 100), status := Some ''Accepted'',
       receiptEmailSent := Some False\<rparr>"

definition webhook_transaction ::
  "services \<Rightarrow> env \<Rightarrow> string \<Rightarrow> rat \<Rightarrow> world \<Rightarrow> (exn + tx_writes) \<times> world"
where
  "webhook_transaction sv e bookingRef event_amount w =
     (case tx_get bookingRef w of
        None \<Rightarrow> (Inr [], w)
      | Some booking \<Rightarrow>
          if paymentStatus booking = Some ''Paid'' then (Inr [], w)
          else
            (let writes = [(bookingRef, mark_paid event_amount)];
                 message = confirmation_message booking;
                 (sent, w1) =
                   (if method_b booking = Some ''whatsapp''
                    then sendWhatsApp sv e (clientPhone booking) message w
                    else sendSms sv e (clientPhone booking) message w)
             in case sent of
                  Inl err \<Rightarrow> (Inl err, w1)
                | Inr _ \<Rightarrow> (Inr writes, w1)))"

text \<open>
  \<^verbatim>\<open>
  async (req, res) => {
    try {
      if (req.method !== "POST") return res.sendStatus(405);
      if (!req.headers["x-paystack-signature"]) return res.sendStatus(401);
      const hash = crypto.createHmac("sha512", process.env.PAYSTACK_SECRET)
        .update(req.rawBody).digest("hex");
      if (hash !== req.headers["x-paystack-signature"]) return res.sendStatus(403);
      const event = req.body;
      if (event.event !== "charge.success") return res.sendStatus(200);
      const bookingId = event.data?.metadata?.bookingId;
      if (!bookingId) return res.sendStatus(400);
      const bookingRef = db.collection("bookings").doc(bookingId);
      await db.runTransaction(...);
      return res.sendStatus(200);
    } catch (err) {
      console.error("Webhook error:", err);
      return res.sendStatus(500);
    }
  }
  \<close>
  The result is the HTTP status sent. \<^verbatim>\<open>createHmac\<close> throws on an undefined key. The
  optional chain \<^verbatim>\<open>event.data?.metadata?.bookingId\<close> is undefined when a link is missing, and
  \<^verbatim>\<open>!bookingId\<close> holds of an undefined and of an empty id.
\<close>

definition paystackWebhook :: "services \<Rightarrow> env \<Rightarrow> request \<Rightarrow> world \<Rightarrow> nat \<times> world" where
  "paystackWebhook sv e req w =
     (if req_method req \<noteq> ''POST'' then (405, w)
      else if falsy_str (x_paystack_signature req) then (401, w)
      else
        case PAYSTACK_SECRET e of
          None \<Rightarrow> (500, w)
        | Some secret \<Rightarrow>
            (let hash = hmac_sha512_hex sv secret (rawBody req)
             in if Some hash \<noteq> x_paystack_signature req then (403, w)
                else if event (body req) \<noteq> ''charge.success'' then (200, w)
                else
                  case data (body req) of
                    None \<Rightarrow> (400, w)
                  | Some d \<Rightarrow>
                      (case metadata d of
                         None \<Rightarrow> (400, w)
                       | Some m \<Rightarrow>
                           (case bookingId m of
                              None \<Rightarrow> (400, w)
                            | Some bookingRef \<Rightarrow>
                                if bookingRef = [] then (400, w)
                                else
                                  (case runTransaction
                                          (webhook_transaction sv e bookingRef (amount d)) w of
                                     (Inl err, w1) \<Rightarrow> (500, w1)
                                   | (Inr _, w1) \<Rightarrow> (200, w1))))))"

section \<open>Reminder sweeper\<close>

definition reminder_message :: "booking \<Rightarrow> string" where
  "reminder_message b =
     alarm_clock @ '' Reminder'' @ newline @
     ''Hi '' @ js_String (clientName b) @ '', your '' @ js_String (style b) @
     '' ('' @ js_String (length_b b) @ '') appointment is in 5 hours.'' @ newline @
     calendar @ '' '' @ js_String (date b) @ newline @
     clock @ '' '' @ js_String (time b)"

text \<open>
  \<^verbatim>\<open>
  db.collection("bookings")
    .where("status", "==", "Accepted")
    .where("reminderSent", "==", false)
    .where("reminderAt", "<=", now)
    .get()
  \<close>
\<close>

definition due :: "timestamp \<Rightarrow> booking \<Rightarrow> bool" where
  "due now b =
     (status b = Some ''Accepted'' \<and> reminderSent b = Some False \<and>
      (case reminderAt b of None \<Rightarrow> False | Some t \<Rightarrow> t \<le> now))"

definition reminder_query :: "timestamp \<Rightarrow> store \<Rightarrow> (string \<times> booking) list" where
  "reminder_query now st = filter (\<lambda>(docId, b). due now b) st"

text \<open>
  \<^verbatim>\<open>
  for (const doc of snapshot.docs) {
    const booking = doc.data();
    const message = `... Reminder ...`;
    try {
      if (booking.method === "whatsapp")
        await sendWhatsApp(booking.clientPhone, message);
      else await sendSms(booking.clientPhone, message);
      await doc.ref.update({ reminderSent: true });
    } catch (err) {
      console.error("Reminder failed:", err.message);
    }
  }
  \<close>
  The body of the loop for one document of the snapshot, then the loop.
\<close>

definition mark_reminded :: "booking \<Rightarrow> booking" where
  "mark_reminded b = b\<lparr>reminderSent := Some True\<rparr>"

definition remind_one :: "services \<Rightarrow> env \<Rightarrow> string \<times> booking \<Rightarrow> world \<Rightarrow> world" where
  "remind_one sv e doc w =
     (let booking = snd doc;
          message = reminder_message booking;
          (sent, w1) =
            (if method_b booking = Some ''whatsapp''
             then sendWhatsApp sv e (clientPhone booking) message w
             else sendSms sv e (clientPhone booking) message w)
      in case sent of
           Inl err \<Rightarrow> w1
         | Inr _ \<Rightarrow> snd (doc_update (fst doc) mark_reminded w1))"

fun reminders_loop :: "services \<Rightarrow> env \<Rightarrow> (string \<times> booking) list \<Rightarrow> world \<Rightarrow> world" where
  "reminders_loop sv e [] w = w"
| "reminders_loop sv e (doc # docs) w = reminders_loop sv e docs (remind_one sv e doc w)"

text \<open>The scheduled function; \<open>now\<close> is \<^verbatim>\<open>admin.firestore.Timestamp.now()\<close>.\<close>

definition sendFiveHourReminders :: "services \<Rightarrow> env \<Rightarrow> timestamp \<Rightarrow> world \<Rightarrow> world" where
  "sendFiveHourReminders sv e now w =
     reminders_loop sv e (reminder_query now (bookings w)) w"

section \<open>The notifier of a variant\<close>

text \<open>
  One of the other copies of the handlers sends through a single function, without retry
  (the parameter \<open>method\<close> defaults to \<^verbatim>\<open>"sms"\<close> when it is undefined). There the sender
  is a parameter declared with \<^verbatim>\<open>defineString("TWILIO_SMS")\<close>, whose \<^verbatim>\<open>value()\<close> is the empty
  string when the variable is unset:
  \<^verbatim>\<open>
  async function sendMessage(phone, message, method = "sms") {
    const client = getTwilioClient();
    if (method === "whatsapp") {
      return client.messages.create({ body: message, from: TWILIO_WHATSAPP, to: `whatsapp:${phone}` });
    }
    return client.messages.create({ body: message, from: TWILIO_SMS.value(), to: phone });
  }
  \<close>
\<close>

definition param_value :: "string option \<Rightarrow> string" where
  "param_value v = (case v of None \<Rightarrow> [] | Some s \<Rightarrow> s)"

definition sendMessage ::
  "services \<Rightarrow> env \<Rightarrow> string option \<Rightarrow> string \<Rightarrow> string option \<Rightarrow> world \<Rightarrow> (exn + string) \<times> world"
where
  "sendMessage sv e phone message method_arg w =
     (let method_v = (case method_arg of None \<Rightarrow> ''sms'' | Some v \<Rightarrow> v)
      in if method_v = ''whatsapp''
         then messages_create sv
                \<lparr>msg_body = message, msg_from = Some TWILIO_WHATSAPP,
                 msg_to = Some (''whatsapp:'' @ js_String phone)\<rparr> w
         else messages_create sv
                \<lparr>msg_body = message, msg_from = Some (param_value (TWILIO_SMS e)),
                 msg_to = phone\<rparr> w)"

section \<open>Vocabulary of the properties\<close>

text \<open>
  The choice of channel that the webhook handler and the reminder loop both make:
  \<^verbatim>\<open>if (booking.method === "whatsapp") await sendWhatsApp(booking.clientPhone, message);
  else await sendSms(booking.clientPhone, message);\<close>
\<close>

definition dispatch ::
  "services \<Rightarrow> env \<Rightarrow> booking \<Rightarrow> string \<Rightarrow> world \<Rightarrow> (exn + string) \<times> world"
where
  "dispatch sv e booking message w =
     (if method_b booking = Some ''whatsapp''
      then sendWhatsApp sv e (clientPhone booking) message w
      else sendSms sv e (clientPhone booking) message w)"

text \<open>The two messages a booking can be sent: the plain one and the prefixed one.\<close>

definition plain_sms :: "env \<Rightarrow> booking \<Rightarrow> string \<Rightarrow> sms" where
  "plain_sms e booking message =
     \<lparr>msg_body = message, msg_from = TWILIO_SMS e, msg_to = clientPhone booking\<rparr>"

definition whatsapp_sms :: "booking \<Rightarrow> string \<Rightarrow> sms" where
  "whatsapp_sms booking message =
     \<lparr>msg_body = message, msg_from = Some TWILIO_WHATSAPP,
      msg_to = Some (''whatsapp:'' @ js_String (clientPhone booking))\<rparr>"

text \<open>An effect of one send of the message \<open>m\<close>: a call with \<open>m\<close>, or a pause.\<close>

fun attempt_of :: "sms \<Rightarrow> effect \<Rightarrow> bool" where
  "attempt_of m (Twilio_create m' r) = (m' = m)"
| "attempt_of m (Sleep ms) = True"
| "attempt_of m (Db_write docId) = False"
| "attempt_of m (Paystack_initialize q r) = False"

text \<open>The calls of the messaging API in a trace that succeeded, and all of them.\<close>

fun delivered :: "effect list \<Rightarrow> sms list" where
  "delivered [] = []"
| "delivered (Twilio_create m (Inr sid) # t) = m # delivered t"
| "delivered (eff # t) = delivered t"

fun attempted :: "effect list \<Rightarrow> sms list" where
  "attempted [] = []"
| "attempted (Twilio_create m r # t) = m # attempted t"
| "attempted (eff # t) = attempted t"

text \<open>The writes to the collection in a trace.\<close>

fun written :: "effect list \<Rightarrow> string list" where
  "written [] = []"
| "written (Db_write docId # t) = docId # written t"
| "written (eff # t) = written t"

text \<open>
  A request that passes the checks before the transaction: a POST whose signature is the
  digest of its raw body under the configured secret, carrying a \<^verbatim>\<open>charge.success\<close> event
  of the given amount for the given booking id.
\<close>

definition authentic :: "services \<Rightarrow> env \<Rightarrow> request \<Rightarrow> bool" where
  "authentic sv e req =
     (req_method req = ''POST'' \<and>
      (case PAYSTACK_SECRET e of
         None \<Rightarrow> False
       | Some secret \<Rightarrow>
           hmac_sha512_hex sv secret (rawBody req) \<noteq> [] \<and>
           x_paystack_signature req = Some (hmac_sha512_hex sv secret (rawBody req))))"

definition charge_success :: "request \<Rightarrow> string \<Rightarrow> rat \<Rightarrow> bool" where
  "charge_success req bookingRef event_amount =
     (event (body req) = ''charge.success'' \<and> bookingRef \<noteq> [] \<and>
      (case data (body req) of
         None \<Rightarrow> False
       | Some d \<Rightarrow>
           amount d = event_amount \<and>
           (case metadata d of None \<Rightarrow> False | Some m \<Rightarrow> bookingId m = Some bookingRef)))"

text \<open>The message the channel choice makes of a booking and a text.\<close>

definition channel_sms :: "env \<Rightarrow> booking \<Rightarrow> string \<Rightarrow> sms" where
  "channel_sms e b message =
     (if method_b b = Some ''whatsapp'' then whatsapp_sms b message else plain_sms e b message)"

text \<open>
  The guard of \<^verbatim>\<open>createBooking\<close>, the document it stores and the request it sends to the
  gateway, as named parts.
\<close>

definition missing_fields :: "booking_input \<Rightarrow> bool" where
  "missing_fields i =
     (falsy_str (in_style i) \<or> falsy_str (in_length i) \<or> falsy_num (in_price i) \<or>
      falsy_str (in_clientName i) \<or> falsy_str (in_clientPhone i) \<or> falsy_str (in_date i) \<or>
      falsy_str (in_time i) \<or> falsy_str (in_email i))"

definition stored_booking :: "timestamp \<Rightarrow> booking_input \<Rightarrow> string \<Rightarrow> string \<Rightarrow> booking" where
  "stored_booking now i phone email =
     \<lparr>style = in_style i, length_b = in_length i, price = in_price i,
      clientName = in_clientName i, clientPhone = Some phone, clientEmail = Some email,
      date = in_date i, time = in_time i, method_b = in_method i, status = Some ''Pending'',
      paymentStatus = Some ''Unpaid'', createdAt = Some now, verified = None,
      depositPaid = None, receiptEmailSent = None, reminderSent = None, reminderAt = None\<rparr>"

definition initialize_request :: "services \<Rightarrow> env \<Rightarrow> booking_input \<Rightarrow> string \<Rightarrow> init_request" where
  "initialize_request sv e i docId =
     \<lparr>init_email = in_email i, init_amount = Math_round_x100 sv (in_price i),
      init_bookingId = docId, init_authorization = ''Bearer '' @ js_String (PAYSTACK_SECRET e)\<rparr>"

text \<open>Every required field of a request is present, as the specification words it.\<close>

definition all_present :: "booking_input \<Rightarrow> bool" where
  "all_present i =
     (in_style i \<noteq> None \<and> in_length i \<noteq> None \<and> in_price i \<noteq> None \<and>
      in_clientName i \<noteq> None \<and> in_clientPhone i \<noteq> None \<and> in_date i \<noteq> None \<and>
      in_time i \<noteq> None \<and> in_email i \<noteq> None)"

section \<open>Example inputs\<close>

text \<open>
  A stand-in for the keyed digest, a messaging API that accepts every call, one that
  rejects every call, and one that rejects the first two calls. The rounding of the
  examples is the exact one, which is what the double arithmetic gives for their prices.
\<close>

definition toy_digest :: "string \<Rightarrow> string \<Rightarrow> string" where
  "toy_digest key d = key @ '':'' @ d"

definition gateway_reply :: init_response where
  "gateway_reply =
     \<lparr>authorization_url = ''https://checkout.paystack.com/0peioxfhpn'',
      access_code = ''0peioxfhpn'', reference = ''7PVGX8MEk85tgeEpVDtD''\<rparr>"

definition services_up :: services where
  "services_up =
     \<lparr>hmac_sha512_hex = toy_digest, twilio = (\<lambda>h m. Inr ''SM1''),
      paystack = (\<lambda>h q. Inr gateway_reply), auto_id = (\<lambda>st. ''booking2''),
      round_x100 = (\<lambda>n. \<lfloor>n * 100 + 1 / 2\<rfloor>)\<rparr>"

definition services_down :: services where
  "services_down = services_up\<lparr>twilio := (\<lambda>h m. Inl (Error ''timeout''))\<rparr>"

definition services_flaky :: services where
  "services_flaky =
     services_up\<lparr>twilio := (\<lambda>h m. if length h < 4 then Inl (Error ''busy'') else Inr ''SM3'')\<rparr>"

definition env1 :: env where
  "env1 = \<lparr>PAYSTACK_SECRET = Some ''sk_test'', TWILIO_SMS = Some ''+15005550006''\<rparr>"

definition booking1 :: booking where
  "booking1 =
     \<lparr>style = Some ''Box braids'', length_b = Some ''Long'', price = Some 500,
      clientName = Some ''Thandi'', clientPhone = Some ''+27821234567'',
      clientEmail = Some ''thandi@example.com'', date = Some ''2026-01-15'',
      time = Some ''10:00'', method_b = Some ''sms'', status = Some ''Pending'',
      paymentStatus = Some ''Unpaid'', createdAt = Some 1000, verified = None,
      depositPaid = None, receiptEmailSent = None, reminderSent = None, reminderAt = None\<rparr>"

definition world1 :: world where
  "world1 = \<lparr>bookings = [(''booking1'', booking1)], trace = []\<rparr>"

definition charge_request :: request where
  "charge_request =
     \<lparr>req_method = ''POST'', x_paystack_signature = Some (toy_digest ''sk_test'' ''raw body''),
      rawBody = ''raw body'',
      body = \<lparr>event = ''charge.success'',
               data = Some \<lparr>metadata = Some \<lparr>bookingId = Some ''booking1''\<rparr>, amount = 5000\<rparr>\<rparr>\<rparr>"

text \<open>
  A messaging API that cannot reach one number, two bookings due a reminder (the first
  at that number, the second on the chat channel) beside one that is not due, and a
  booking request.
\<close>

definition services_partial :: services where
  "services_partial =
     services_up\<lparr>twilio := (\<lambda>h m. if msg_to m = Some ''+27820000001''
                                    then Inl (Error ''unreachable'') else Inr ''SM1'')\<rparr>"

definition booking_due1 :: booking where
  "booking_due1 =
     booking1\<lparr>clientPhone := Some ''+27820000001'', status := Some ''Accepted'',
       paymentStatus := Some ''Paid'', reminderSent := Some False, reminderAt := Some 4000\<rparr>"

definition booking_due2 :: booking where
  "booking_due2 =
     booking1\<lparr>method_b := Some ''whatsapp'', status := Some ''Accepted'',
       paymentStatus := Some ''Paid'', reminderSent := Some False, reminderAt := Some 4500\<rparr>"

definition world2 :: world where
  "world2 =
     \<lparr>bookings = [(''booking1'', booking_due1), (''booking2'', booking_due2), (''booking3'', booking1)],
      trace = []\<rparr>"

definition input1 :: booking_input where
  "input1 =
     \<lparr>in_style = Some ''Box braids'', in_length = Some ''Long'', in_price = Some 500,
      in_clientName = Some ''Thandi'', in_clientPhone = Some ''082 123 4567'',
      in_date = Some ''2026-01-15'', in_time = Some ''10:00'', in_method = Some ''sms'',
      in_email = Some ''thandi@example.com''\<rparr>"

section \<open>Properties of the validator\<close>

lemma is_digit_27: "is_digit CHR ''2''" "is_digit CHR ''7''" "\<not> is_digit CHR ''+''"
  by (simp_all add: is_digit_def)

lemma digits_filter: "list_all is_digit (filter is_digit raw)"
  by (simp add: list_all_iff)

lemma normalized_digits:
  assumes "list_all is_digit d"
  shows "list_all is_digit (if startsWith d ''0'' then ''27'' @ drop 1 d else d)"
proof (cases d)
  case Nil
  then show ?thesis by (simp add: startsWith_def)
next
  case (Cons c rest)
  with assms show ?thesis by (simp add: is_digit_27)
qed

lemma normalized_cases:
  "(if startsWith d ''0'' then ''27'' @ drop 1 d else d) =
   (case d of [] \<Rightarrow> [] | c # rest \<Rightarrow> if c = CHR ''0'' then ''27'' @ rest else d)"
  by (cases d) (simp_all add: startsWith_def)

lemma normalized_not_0:
  "\<not> startsWith (if startsWith d ''0'' then ''27'' @ drop 1 d else d) ''0''"
  by (cases d) (simp_all add: startsWith_def)

lemma filter_digits_plus:
  assumes "list_all is_digit p"
  shows "filter is_digit (''+'' @ p) = p"
  using assms by (simp add: is_digit_27 list_all_iff)

lemma validatePhone_refines: "validatePhone raw = normalizePhone raw"
proof -
  have "list_all is_digit
          (if startsWith (filter is_digit raw) ''0'' then ''27'' @ drop 1 (filter is_digit raw)
           else filter is_digit raw)"
    by (rule normalized_digits [OF digits_filter])
  then show ?thesis
    unfolding validatePhone_def normalizePhone_def test_11_15_digits_def Let_def normalized_cases
    by simp
qed

text \<open>
  C7. On every raw input \<^verbatim>\<open>validatePhone\<close> does what the specification says of
  \<^verbatim>\<open>normalizePhone\<close>: it keeps the digits only, replaces a leading 0 by 27, fails with the
  invalid-phone error unless 11 to 15 digits are left, and otherwise returns them behind a
  plus sign (the digit test of the code's pattern never fails on what is left). In
  particular 0821234567 gives +27821234567, +27821234567 gives itself, and every input
  with exactly five digits fails.
\<close>

theorem validatePhone_normalizes:
  "(\<forall>raw. validatePhone raw = normalizePhone raw) \<and>
   validatePhone ''0821234567'' = Inr ''+27821234567'' \<and>
   validatePhone ''+27821234567'' = Inr ''+27821234567'' \<and>
   (\<forall>raw. length (filter is_digit raw) = 5 \<longrightarrow>
      validatePhone raw = Inl (Error ''Invalid phone number''))"
proof (intro conjI allI impI)
  fix raw
  show "validatePhone raw = normalizePhone raw"
    by (rule validatePhone_refines)
next
  show "validatePhone ''0821234567'' = Inr ''+27821234567''"
    by (simp add: validatePhone_def test_11_15_digits_def startsWith_def is_digit_def)
next
  show "validatePhone ''+27821234567'' = Inr ''+27821234567''"
    by (simp add: validatePhone_def test_11_15_digits_def startsWith_def is_digit_def)
next
  fix raw
  assume "length (filter is_digit raw) = 5"
  then show "validatePhone raw = Inl (Error ''Invalid phone number'')"
    by (simp add: validatePhone_def test_11_15_digits_def Let_def)
qed

theorem validatePhone_normalizes_witness:
  "length (filter is_digit ''(012) 34'') = 5 \<and>
   validatePhone ''(012) 34'' = Inl (Error ''Invalid phone number'') \<and>
   validatePhone ''082 123 4567'' = normalizePhone ''082 123 4567''"
proof -
  have five: "length (filter is_digit ''(012) 34'') = 5"
    by (simp add: is_digit_def)
  from validatePhone_normalizes five show ?thesis
    by blast
qed

text \<open>
  C9. Normalisation is idempotent: when \<^verbatim>\<open>validatePhone\<close> returns \<open>r\<close>, it returns \<open>r\<close> on
  \<open>r\<close> again.
\<close>

theorem validatePhone_idempotent:
  assumes "validatePhone raw = Inr r"
  shows "validatePhone r = Inr r"
proof -
  define p where
    "p = (if startsWith (filter is_digit raw) ''0'' then ''27'' @ drop 1 (filter is_digit raw)
          else filter is_digit raw)"
  from assms have ok: "test_11_15_digits p" and r: "r = ''+'' @ p"
    by (auto simp: validatePhone_def Let_def p_def split: if_splits)
  from ok have dig: "list_all is_digit p"
    by (simp add: test_11_15_digits_def)
  have f: "filter is_digit r = p"
    unfolding r by (rule filter_digits_plus [OF dig])
  have n0: "\<not> startsWith p ''0''"
    unfolding p_def by (rule normalized_not_0)
  have "validatePhone r = Inr (''+'' @ p)"
    unfolding validatePhone_def Let_def f using ok n0 by simp
  then show ?thesis by (simp only: r)
qed

theorem validatePhone_idempotent_witness:
  "validatePhone ''082 123 4567'' = Inr ''+27821234567'' \<and>
   validatePhone ''+27821234567'' = Inr ''+27821234567''"
proof -
  have first: "validatePhone ''082 123 4567'' = Inr ''+27821234567''"
    by (simp add: validatePhone_def test_11_15_digits_def startsWith_def is_digit_def)
  from first validatePhone_idempotent [OF first] show ?thesis
    by simp
qed

section \<open>Properties of the notifier\<close>

text \<open>Three attempts, unrolled: the loop with its counter at 1, 2, 3 and 4.\<close>

lemma sendWithRetry_3:
  "sendWithRetry sendFn 3 w =
     (case sendFn w of
        (Inr r, w1) \<Rightarrow> (Inr r, w1)
      | (Inl e1, w1) \<Rightarrow>
          (case sendFn (sleep (2 ^ 1 * 500) w1) of
             (Inr r, w2) \<Rightarrow> (Inr r, w2)
           | (Inl e2, w2) \<Rightarrow>
               (case sendFn (sleep (2 ^ 2 * 500) w2) of
                  (Inr r, w3) \<Rightarrow> (Inr r, w3)
                | (Inl e3, w3) \<Rightarrow> (Inl e3, w3))))"
proof -
  have step4: "sendWithRetry_loop sendFn 3 4 (Some err) w' = (Inl err, w')" for err w'
    by (subst sendWithRetry_loop.simps) simp
  have step3: "sendWithRetry_loop sendFn 3 3 l w' =
      (case sendFn w' of (Inr r, w3) \<Rightarrow> (Inr r, w3) | (Inl e3, w3) \<Rightarrow> (Inl e3, w3))" for l w'
    by (subst sendWithRetry_loop.simps) (simp add: step4 split: prod.splits sum.splits)
  have step2: "sendWithRetry_loop sendFn 3 2 l w' =
      (case sendFn w' of
         (Inr r, w2) \<Rightarrow> (Inr r, w2)
       | (Inl e2, w2) \<Rightarrow> sendWithRetry_loop sendFn 3 3 (Some e2) (sleep (2 ^ 2 * 500) w2))" for l w'
    by (subst sendWithRetry_loop.simps) (simp split: prod.splits sum.splits)
  have step1: "sendWithRetry_loop sendFn 3 1 l w' =
      (case sendFn w' of
         (Inr r, w1) \<Rightarrow> (Inr r, w1)
       | (Inl e1, w1) \<Rightarrow> sendWithRetry_loop sendFn 3 2 (Some e1) (sleep (2 ^ 1 * 500) w1))" for l w'
    by (subst sendWithRetry_loop.simps) (simp split: prod.splits sum.splits)
  show ?thesis
    unfolding sendWithRetry_def step1 step2 step3 ..
qed

lemma notifier_3:
  "sendWithRetry (messages_create sv m) 3 w =
     (let r1 = twilio sv (trace w) m;
          t1 = trace w @ [Twilio_create m r1];
          r2 = twilio sv (t1 @ [Sleep 1000]) m;
          t2 = t1 @ [Sleep 1000, Twilio_create m r2];
          r3 = twilio sv (t2 @ [Sleep 2000]) m;
          t3 = t2 @ [Sleep 2000, Twilio_create m r3]
      in if \<not> isl r1 then (r1, w\<lparr>trace := t1\<rparr>)
         else if \<not> isl r2 then (r2, w\<lparr>trace := t2\<rparr>)
         else (r3, w\<lparr>trace := t3\<rparr>))"
  unfolding sendWithRetry_3
  by (simp add: messages_create_def sleep_def Let_def split: sum.splits)

text \<open>
  C4. A send of the notifier (\<^verbatim>\<open>sendSms\<close>, and \<^verbatim>\<open>sendWhatsApp\<close> alike) makes one, two or
  three calls of the messaging API. A first call that succeeds is returned at once; after a
  failed first call it pauses 500 ms * 2^1 = 1 s and calls again, returning a success at
  once; after a failed second call it pauses 500 ms * 2^2 = 2 s and calls a third time;
  the outcome of the third call is the result, so three failures surface the last error.
  There is no pause after the third call and no fourth call.
\<close>

theorem notifier_retry_policy:
  "sendSms sv e phone message w =
     (let m = \<lparr>msg_body = message, msg_from = TWILIO_SMS e, msg_to = phone\<rparr>;
          r1 = twilio sv (trace w) m;
          t1 = trace w @ [Twilio_create m r1];
          r2 = twilio sv (t1 @ [Sleep (500 * 2 ^ 1)]) m;
          t2 = t1 @ [Sleep (500 * 2 ^ 1), Twilio_create m r2];
          r3 = twilio sv (t2 @ [Sleep (500 * 2 ^ 2)]) m;
          t3 = t2 @ [Sleep (500 * 2 ^ 2), Twilio_create m r3]
      in if \<not> isl r1 then (r1, w\<lparr>trace := t1\<rparr>)
         else if \<not> isl r2 then (r2, w\<lparr>trace := t2\<rparr>)
         else (r3, w\<lparr>trace := t3\<rparr>)) \<and>
   sendWhatsApp sv e phone message w =
     (let m = \<lparr>msg_body = message, msg_from = Some TWILIO_WHATSAPP,
                msg_to = Some (''whatsapp:'' @ js_String phone)\<rparr>;
          r1 = twilio sv (trace w) m;
          t1 = trace w @ [Twilio_create m r1];
          r2 = twilio sv (t1 @ [Sleep (500 * 2 ^ 1)]) m;
          t2 = t1 @ [Sleep (500 * 2 ^ 1), Twilio_create m r2];
          r3 = twilio sv (t2 @ [Sleep (500 * 2 ^ 2)]) m;
          t3 = t2 @ [Sleep (500 * 2 ^ 2), Twilio_create m r3]
      in if \<not> isl r1 then (r1, w\<lparr>trace := t1\<rparr>)
         else if \<not> isl r2 then (r2, w\<lparr>trace := t2\<rparr>)
         else (r3, w\<lparr>trace := t3\<rparr>))"
  unfolding sendSms_def sendWhatsApp_def notifier_3
  by (simp add: Let_def)

theorem notifier_retry_policy_witness:
  "sendSms services_flaky env1 (Some ''+27821234567'') ''hello'' world1 =
     (Inr ''SM3'',
      world1\<lparr>trace :=
        [Twilio_create \<lparr>msg_body = ''hello'', msg_from = Some ''+15005550006'',
                         msg_to = Some ''+27821234567''\<rparr> (Inl (Error ''busy'')),
         Sleep 1000,
         Twilio_create \<lparr>msg_body = ''hello'', msg_from = Some ''+15005550006'',
                         msg_to = Some ''+27821234567''\<rparr> (Inl (Error ''busy'')),
         Sleep 2000,
         Twilio_create \<lparr>msg_body = ''hello'', msg_from = Some ''+15005550006'',
                         msg_to = Some ''+27821234567''\<rparr> (Inr ''SM3'')]\<rparr>)"
  using notifier_retry_policy [of services_flaky env1 "Some ''+27821234567''" "''hello''" world1]
  by (simp add: services_flaky_def services_up_def env1_def world1_def Let_def)

section \<open>Properties of the webhook handler\<close>

lemma notifier_effects:
  "\<exists>new. snd (sendWithRetry (messages_create sv m) 3 w) = w\<lparr>trace := trace w @ new\<rparr> \<and>
         new \<noteq> [] \<and> list_all (attempt_of m) new \<and>
         last new = Twilio_create m (fst (sendWithRetry (messages_create sv m) 3 w)) \<and>
         list_all (\<lambda>eff. \<forall>sid. eff \<noteq> Twilio_create m (Inr sid)) (butlast new)"
  unfolding notifier_3 Let_def
  by (auto simp: isl_def)

lemma dispatch_message:
  "dispatch sv e b message =
     sendWithRetry (messages_create sv
       (if method_b b = Some ''whatsapp'' then whatsapp_sms b message else plain_sms e b message)) 3"
  by (rule ext) (simp add: dispatch_def sendSms_def sendWhatsApp_def plain_sms_def whatsapp_sms_def)

lemma webhook_transaction_absent:
  "map_of (bookings w) bookingRef = None \<Longrightarrow>
   webhook_transaction sv e bookingRef amt w = (Inr [], w)"
  by (simp add: webhook_transaction_def tx_get_def)

lemma webhook_transaction_paid:
  "map_of (bookings w) bookingRef = Some b \<Longrightarrow> paymentStatus b = Some ''Paid'' \<Longrightarrow>
   webhook_transaction sv e bookingRef amt w = (Inr [], w)"
  by (simp add: webhook_transaction_def tx_get_def)

lemma webhook_transaction_unpaid:
  "map_of (bookings w) bookingRef = Some b \<Longrightarrow> paymentStatus b \<noteq> Some ''Paid'' \<Longrightarrow>
   webhook_transaction sv e bookingRef amt w =
     (case dispatch sv e b (confirmation_message b) w of
        (Inl err, w1) \<Rightarrow> (Inl err, w1)
      | (Inr sid, w1) \<Rightarrow> (Inr [(bookingRef, mark_paid amt)], w1))"
  by (simp add: webhook_transaction_def tx_get_def dispatch_def Let_def split: prod.splits sum.splits)

lemma webhook_authentic_charge:
  assumes "authentic sv e req" and "charge_success req bookingRef amt"
  shows "paystackWebhook sv e req w =
           (case runTransaction (webhook_transaction sv e bookingRef amt) w of
              (Inl err, w1) \<Rightarrow> (500, w1)
            | (Inr u, w1) \<Rightarrow> (200, w1))"
  using assms
  by (auto simp: authentic_def charge_success_def paystackWebhook_def falsy_str_def Let_def
      split: option.splits)

lemma dispatch_keeps_bookings:
  "bookings (snd (dispatch sv e b message w)) = bookings w"
proof -
  obtain new where
    "snd (dispatch sv e b message w) = w\<lparr>trace := trace w @ new\<rparr>"
    unfolding dispatch_message using notifier_effects by blast
  then show ?thesis by simp
qed

lemma runTransaction_one_write:
  assumes "updateFunction w = (Inr [(docId, f)], w1)" and "map_of (bookings w1) docId = Some b"
  shows "runTransaction updateFunction w = (Inr (), apply_write docId f w1)"
  using assms by (simp add: runTransaction_def)

lemma runTransaction_no_write:
  assumes "updateFunction w = (Inr [], w1)"
  shows "runTransaction updateFunction w = (Inr (), w1)"
  using assms by (simp add: runTransaction_def)

lemma runTransaction_throws:
  assumes "updateFunction w = (Inl err, w1)"
  shows "runTransaction updateFunction w = (Inl err, w1)"
  using assms by (simp add: runTransaction_def)

lemma webhook_sent:
  assumes "authentic sv e req" and "charge_success req bookingRef amt"
    and "map_of (bookings w) bookingRef = Some b" and "paymentStatus b \<noteq> Some ''Paid''"
    and "dispatch sv e b (confirmation_message b) w = (Inr sid, w1)"
  shows "paystackWebhook sv e req w = (200, apply_write bookingRef (mark_paid amt) w1)"
proof -
  have "bookings w1 = bookings w"
    using dispatch_keeps_bookings [of sv e b "confirmation_message b" w] assms(5) by simp
  with assms(3) have there: "map_of (bookings w1) bookingRef = Some b" by simp
  have "webhook_transaction sv e bookingRef amt w = (Inr [(bookingRef, mark_paid amt)], w1)"
    using assms(3-5) by (simp add: webhook_transaction_unpaid)
  from runTransaction_one_write [where updateFunction = "webhook_transaction sv e bookingRef amt" and w = w, OF this there] show ?thesis
    by (simp add: webhook_authentic_charge [OF assms(1,2)])
qed

lemma webhook_not_sent:
  assumes "authentic sv e req" and "charge_success req bookingRef amt"
    and "map_of (bookings w) bookingRef = Some b" and "paymentStatus b \<noteq> Some ''Paid''"
    and "dispatch sv e b (confirmation_message b) w = (Inl err, w1)"
  shows "paystackWebhook sv e req w = (500, w1)"
proof -
  have "webhook_transaction sv e bookingRef amt w = (Inl err, w1)"
    using assms(3-5) by (simp add: webhook_transaction_unpaid)
  from runTransaction_throws [where updateFunction = "webhook_transaction sv e bookingRef amt" and w = w, OF this] show ?thesis
    by (simp add: webhook_authentic_charge [OF assms(1,2)])
qed

lemma webhook_paid:
  assumes "authentic sv e req" and "charge_success req bookingRef amt"
    and "map_of (bookings w) bookingRef = Some b" and "paymentStatus b = Some ''Paid''"
  shows "paystackWebhook sv e req w = (200, w)"
proof -
  have "webhook_transaction sv e bookingRef amt w = (Inr [], w)"
    using assms(3,4) by (rule webhook_transaction_paid)
  from runTransaction_no_write [where updateFunction = "webhook_transaction sv e bookingRef amt" and w = w, OF this] show ?thesis
    by (simp add: webhook_authentic_charge [OF assms(1,2)])
qed

lemma webhook_absent:
  assumes "authentic sv e req" and "charge_success req bookingRef amt"
    and "map_of (bookings w) bookingRef = None"
  shows "paystackWebhook sv e req w = (200, w)"
proof -
  have "webhook_transaction sv e bookingRef amt w = (Inr [], w)"
    using assms(3) by (rule webhook_transaction_absent)
  from runTransaction_no_write [where updateFunction = "webhook_transaction sv e bookingRef amt" and w = w, OF this] show ?thesis
    by (simp add: webhook_authentic_charge [OF assms(1,2)])
qed

lemma map_of_apply_write:
  "map_of (bookings (apply_write docId f w)) k =
     (if k = docId then map_option f (map_of (bookings w) docId) else map_of (bookings w) k)"
  by (simp add: apply_write_def map_of_map_entry split: option.splits)

text \<open>
  After a first delivery whose confirmation was sent, a second delivery of the same event
  answers 200 and changes nothing.
\<close>

lemma webhook_redelivery_after_success:
  assumes "authentic sv e req" and "charge_success req bookingRef amt"
    and "map_of (bookings w) bookingRef = Some b" and "paymentStatus b \<noteq> Some ''Paid''"
    and "dispatch sv e b (confirmation_message b) w = (Inr sid, w1)"
  shows "paystackWebhook sv e req (snd (paystackWebhook sv e req w)) =
           (200, snd (paystackWebhook sv e req w))"
proof -
  have run: "paystackWebhook sv e req w = (200, apply_write bookingRef (mark_paid amt) w1)"
    using assms by (rule webhook_sent)
  have same: "bookings w1 = bookings w"
    using dispatch_keeps_bookings [of sv e b "confirmation_message b" w] assms(5) by simp
  have now_paid: "map_of (bookings (apply_write bookingRef (mark_paid amt) w1)) bookingRef =
      Some (mark_paid amt b)"
    by (simp add: map_of_apply_write same assms(3))
  have "paymentStatus (mark_paid amt b) = Some ''Paid''"
    by (simp add: mark_paid_def)
  with assms(1,2) now_paid
  have "paystackWebhook sv e req (apply_write bookingRef (mark_paid amt) w1) =
      (200, apply_write bookingRef (mark_paid amt) w1)"
    by (rule webhook_paid)
  then show ?thesis by (simp add: run)
qed

text \<open>
  C3. A request whose signature header is not the hex digest of its raw body under the
  configured secret is rejected with an error status (405 for a method other than POST,
  401 for a missing or empty header, 403 for a header that differs from the digest, 500
  when no secret is configured), and the handler leaves the world as it was: no booking
  is changed and nothing is sent.
\<close>

theorem webhook_rejects_bad_signature:
  assumes "\<forall>secret. PAYSTACK_SECRET e = Some secret \<longrightarrow>
             x_paystack_signature req \<noteq> Some (hmac_sha512_hex sv secret (rawBody req))"
  shows "fst (paystackWebhook sv e req w) \<in> {401, 403, 405, 500} \<and>
         snd (paystackWebhook sv e req w) = w"
  using assms
  by (auto simp: paystackWebhook_def Let_def split: option.splits)

lemma ex_authentic: "authentic services_up env1 charge_request"
  by (simp add: authentic_def services_up_def env1_def charge_request_def toy_digest_def)

lemma ex_charge: "charge_success charge_request ''booking1'' 5000"
  by (simp add: charge_success_def charge_request_def)

lemma ex_dispatch_up:
  "dispatch services_up env1 booking1 msg world1 =
     (Inr ''SM1'', world1\<lparr>trace := [Twilio_create (plain_sms env1 booking1 msg) (Inr ''SM1'')]\<rparr>)"
  unfolding dispatch_message notifier_3
  by (simp add: services_up_def booking1_def world1_def Let_def)

theorem webhook_rejects_bad_signature_witness:
  "fst (paystackWebhook services_up env1 (charge_request\<lparr>x_paystack_signature := Some ''forged''\<rparr>) world1)
     \<in> {401, 403, 405, 500} \<and>
   snd (paystackWebhook services_up env1 (charge_request\<lparr>x_paystack_signature := Some ''forged''\<rparr>) world1)
     = world1"
proof -
  have "\<forall>secret. PAYSTACK_SECRET env1 = Some secret \<longrightarrow>
          x_paystack_signature (charge_request\<lparr>x_paystack_signature := Some ''forged''\<rparr>) \<noteq>
          Some (hmac_sha512_hex services_up secret
                  (rawBody (charge_request\<lparr>x_paystack_signature := Some ''forged''\<rparr>)))"
    by (simp add: env1_def services_up_def toy_digest_def charge_request_def)
  then show ?thesis
    by (rule webhook_rejects_bad_signature)
qed

text \<open>
  C6, amended. For a request that passes the checks and names a booking that is in the
  store: when the booking is already Paid, the handler changes nothing, sends nothing and
  answers 200; when it is not Paid and the confirmation send succeeds, the handler answers
  200, its one write follows the send, and the booking then has paymentStatus Paid,
  depositPaid equal to the event amount divided by 100, status Accepted, verified true and
  receiptEmailSent false, every other field and every other booking being as before.
\<close>

theorem webhook_transaction_outcomes:
  assumes "authentic sv e req" and "charge_success req bookingRef event_amount"
    and "map_of (bookings w) bookingRef = Some b"
  shows "(paymentStatus b = Some ''Paid'' \<longrightarrow> paystackWebhook sv e req w = (200, w)) \<and>
         (paymentStatus b \<noteq> Some ''Paid'' \<longrightarrow>
            (\<forall>sid w1. dispatch sv e b (confirmation_message b) w = (Inr sid, w1) \<longrightarrow>
               fst (paystackWebhook sv e req w) = 200 \<and>
               trace (snd (paystackWebhook sv e req w)) = trace w1 @ [Db_write bookingRef] \<and>
               map_of (bookings (snd (paystackWebhook sv e req w))) bookingRef =
                 Some (b\<lparr>paymentStatus := Some ''Paid'', verified := Some True,
                         depositPaid := Some (event_amount / 100), status := Some ''Accepted'',
                         receiptEmailSent := Some False\<rparr>) \<and>
               (\<forall>other. other \<noteq> bookingRef \<longrightarrow>
                  map_of (bookings (snd (paystackWebhook sv e req w))) other =
                  map_of (bookings w) other)))"
proof (intro conjI impI allI)
  assume "paymentStatus b = Some ''Paid''"
  with assms show "paystackWebhook sv e req w = (200, w)"
    by (rule webhook_paid)
next
  fix sid w1
  assume unpaid: "paymentStatus b \<noteq> Some ''Paid''"
    and sent: "dispatch sv e b (confirmation_message b) w = (Inr sid, w1)"
  have run: "paystackWebhook sv e req w = (200, apply_write bookingRef (mark_paid event_amount) w1)"
    using assms unpaid sent by (rule webhook_sent)
  have same: "bookings w1 = bookings w"
    using dispatch_keeps_bookings [of sv e b "confirmation_message b" w] sent by simp
  show "fst (paystackWebhook sv e req w) = 200"
    by (simp add: run)
  show "trace (snd (paystackWebhook sv e req w)) = trace w1 @ [Db_write bookingRef]"
    by (simp add: run apply_write_def)
  show "map_of (bookings (snd (paystackWebhook sv e req w))) bookingRef =
          Some (b\<lparr>paymentStatus := Some ''Paid'', verified := Some True,
                  depositPaid := Some (event_amount / 100), status := Some ''Accepted'',
                  receiptEmailSent := Some False\<rparr>)"
    by (simp add: run map_of_apply_write same assms(3) mark_paid_def)
  fix other
  assume "other \<noteq> bookingRef"
  then show "map_of (bookings (snd (paystackWebhook sv e req w))) other = map_of (bookings w) other"
    by (simp add: run map_of_apply_write same)
qed

lemma ex_lookup: "map_of (bookings world1) ''booking1'' = Some booking1"
  by (simp add: world1_def)

lemma ex_unpaid: "paymentStatus booking1 \<noteq> Some ''Paid''"
  by (simp add: booking1_def)

lemma ex_lookup_paid:
  "map_of (bookings (world1\<lparr>bookings := [(''booking1'', mark_paid 5000 booking1)]\<rparr>)) ''booking1'' =
     Some (mark_paid 5000 booking1)"
  by simp

theorem webhook_transaction_outcomes_witness:
  "fst (paystackWebhook services_up env1 charge_request world1) = 200 \<and>
   map_of (bookings (snd (paystackWebhook services_up env1 charge_request world1))) ''booking1'' =
     Some (booking1\<lparr>paymentStatus := Some ''Paid'', verified := Some True,
             depositPaid := Some (5000 / 100), status := Some ''Accepted'',
             receiptEmailSent := Some False\<rparr>) \<and>
   paystackWebhook services_up env1 charge_request
     (world1\<lparr>bookings := [(''booking1'', mark_paid 5000 booking1)]\<rparr>) =
     (200, world1\<lparr>bookings := [(''booking1'', mark_paid 5000 booking1)]\<rparr>)"
proof -
  have paid: "paymentStatus (mark_paid 5000 booking1) = Some ''Paid''"
    by (simp add: mark_paid_def)
  from webhook_transaction_outcomes [OF ex_authentic ex_charge ex_lookup] ex_unpaid
    ex_dispatch_up [of "confirmation_message booking1"]
  have "fst (paystackWebhook services_up env1 charge_request world1) = 200"
    and "map_of (bookings (snd (paystackWebhook services_up env1 charge_request world1))) ''booking1'' =
     Some (booking1\<lparr>paymentStatus := Some ''Paid'', verified := Some True,
             depositPaid := Some (5000 / 100), status := Some ''Accepted'',
             receiptEmailSent := Some False\<rparr>)"
    by blast+
  moreover from webhook_transaction_outcomes [OF ex_authentic ex_charge ex_lookup_paid] paid
  have "paystackWebhook services_up env1 charge_request
     (world1\<lparr>bookings := [(''booking1'', mark_paid 5000 booking1)]\<rparr>) =
     (200, world1\<lparr>bookings := [(''booking1'', mark_paid 5000 booking1)]\<rparr>)"
    by blast
  ultimately show ?thesis by simp
qed

text \<open>
  C6 as the specification words it stores the event amount: an event of amount 5000 leaves
  depositPaid at 50.
\<close>

theorem webhook_depositPaid_counterexample:
  "map_option amount (data (body charge_request)) = Some 5000 \<and>
   map_option depositPaid
     (map_of (bookings (snd (paystackWebhook services_up env1 charge_request world1))) ''booking1'') =
     Some (Some 50)"
proof -
  have "paystackWebhook services_up env1 charge_request world1 =
          (200, apply_write ''booking1'' (mark_paid 5000)
                  (world1\<lparr>trace := [Twilio_create (plain_sms env1 booking1 (confirmation_message booking1))
                                      (Inr ''SM1'')]\<rparr>))"
    using ex_authentic ex_charge ex_lookup ex_unpaid ex_dispatch_up by (rule webhook_sent)
  then show ?thesis
    by (simp add: charge_request_def map_of_apply_write ex_lookup mark_paid_def)
qed

lemma dispatch_down:
  "method_b b \<noteq> Some ''whatsapp'' \<Longrightarrow>
   dispatch services_down e b msg w =
     (Inl (Error ''timeout''),
      w\<lparr>trace := trace w @
         [Twilio_create (plain_sms e b msg) (Inl (Error ''timeout'')), Sleep 1000,
          Twilio_create (plain_sms e b msg) (Inl (Error ''timeout'')), Sleep 2000,
          Twilio_create (plain_sms e b msg) (Inl (Error ''timeout''))]\<rparr>)"
  unfolding dispatch_message notifier_3
  by (simp add: services_down_def services_up_def Let_def)

lemma ex_authentic_down: "authentic services_down env1 charge_request"
  by (simp add: authentic_def services_down_def services_up_def env1_def charge_request_def toy_digest_def)

lemma ex_sms: "method_b booking1 \<noteq> Some ''whatsapp''"
  by (simp add: booking1_def)

text \<open>
  C1, at an input where it fails. The messaging API rejects every call; the same
  \<^verbatim>\<open>charge.success\<close> event for the unpaid booking is delivered twice. Each delivery makes
  three failed calls inside the transaction, which is then abandoned: both deliveries
  answer 500, nothing is delivered, and the booking is still Unpaid and Pending after the
  second.
\<close>

theorem webhook_redelivery_notifier_down:
  "fst (paystackWebhook services_down env1 charge_request world1) = 500 \<and>
   bookings (snd (paystackWebhook services_down env1 charge_request world1)) =
     [(''booking1'', booking1)] \<and>
   fst (paystackWebhook services_down env1 charge_request
          (snd (paystackWebhook services_down env1 charge_request world1))) = 500 \<and>
   bookings (snd (paystackWebhook services_down env1 charge_request
          (snd (paystackWebhook services_down env1 charge_request world1)))) =
     [(''booking1'', booking1)] \<and>
   paymentStatus booking1 = Some ''Unpaid'' \<and> status booking1 = Some ''Pending'' \<and>
   length (attempted (trace (snd (paystackWebhook services_down env1 charge_request
          (snd (paystackWebhook services_down env1 charge_request world1)))))) = 6 \<and>
   delivered (trace (snd (paystackWebhook services_down env1 charge_request
          (snd (paystackWebhook services_down env1 charge_request world1))))) = [] \<and>
   written (trace (snd (paystackWebhook services_down env1 charge_request
          (snd (paystackWebhook services_down env1 charge_request world1))))) = []"
proof -
  define m where "m = plain_sms env1 booking1 (confirmation_message booking1)"
  define failed where
    "failed = [Twilio_create m (Inl (Error ''timeout'')), Sleep 1000,
               Twilio_create m (Inl (Error ''timeout'')), Sleep 2000,
               Twilio_create m (Inl (Error ''timeout''))]"
  define w1 where "w1 = world1\<lparr>trace := trace world1 @ failed\<rparr>"
  define w2 where "w2 = w1\<lparr>trace := trace w1 @ failed\<rparr>"
  have first: "paystackWebhook services_down env1 charge_request world1 = (500, w1)"
    unfolding w1_def failed_def m_def
    using ex_authentic_down ex_charge ex_lookup ex_unpaid dispatch_down [OF ex_sms]
    by (rule webhook_not_sent)
  have lookup1: "map_of (bookings w1) ''booking1'' = Some booking1"
    by (simp add: w1_def ex_lookup)
  have second: "paystackWebhook services_down env1 charge_request w1 = (500, w2)"
    unfolding w2_def failed_def m_def
    using ex_authentic_down ex_charge lookup1 ex_unpaid dispatch_down [OF ex_sms]
    by (rule webhook_not_sent)
  show ?thesis
    unfolding first second fst_conv snd_conv
    by (simp add: w2_def w1_def failed_def world1_def booking1_def)
qed

lemma written_append: "written (xs @ ys) = written xs @ written ys"
  by (induction xs rule: written.induct) simp_all

lemma attempted_append: "attempted (xs @ ys) = attempted xs @ attempted ys"
  by (induction xs rule: attempted.induct) simp_all

lemma delivered_append: "delivered (xs @ ys) = delivered xs @ delivered ys"
  by (induction xs rule: delivered.induct) simp_all

lemma attempts_write_nothing: "list_all (attempt_of m) new \<Longrightarrow> written new = []"
  by (induction new rule: written.induct) simp_all

lemma attempts_are_of: "list_all (attempt_of m) new \<Longrightarrow> set (attempted new) \<subseteq> {m}"
  by (induction new rule: attempted.induct) simp_all

lemma last_attempted:
  assumes "new \<noteq> []" and "last new = Twilio_create m r"
  shows "attempted new \<noteq> []"
proof -
  from assms have "new = butlast new @ [Twilio_create m r]"
    by (metis append_butlast_last_id)
  then have "attempted new = attempted (butlast new) @ [m]"
    by (metis attempted_append attempted.simps(1,2))
  then show ?thesis by simp
qed

lemma dispatch_run:
  "\<exists>new. new \<noteq> [] \<and> list_all (attempt_of (channel_sms e b message)) new \<and>
         last new = Twilio_create (channel_sms e b message) (fst (dispatch sv e b message w)) \<and>
         snd (dispatch sv e b message w) = w\<lparr>trace := trace w @ new\<rparr>"
  unfolding dispatch_message channel_sms_def
  using notifier_effects [of sv _ w] by blast

lemma webhook_branches:
  "paystackWebhook sv e req w \<in> {(200, w), (400, w), (401, w), (403, w), (405, w), (500, w)} \<or>
   (\<exists>bookingRef amt. authentic sv e req \<and> charge_success req bookingRef amt)"
  by (auto simp: paystackWebhook_def authentic_def charge_success_def falsy_str_def Let_def
      split: option.splits)

text \<open>
  C2, amended. The confirmation message is sent inside the transaction, before it
  commits. Whatever the request and the store, the handler either writes nothing (the
  bookings are as before), or its effects end with the one write that makes the booking
  Paid and Accepted, every call of the messaging API stands before that write, and there
  is at least one.
\<close>

theorem webhook_sends_before_commit:
  "\<exists>new. trace (snd (paystackWebhook sv e req w)) = trace w @ new \<and>
     (written new = [] \<and> bookings (snd (paystackWebhook sv e req w)) = bookings w \<or>
      (\<exists>pre bookingRef.
         new = pre @ [Db_write bookingRef] \<and> written pre = [] \<and> attempted pre \<noteq> [] \<and>
         map_option paymentStatus (map_of (bookings (snd (paystackWebhook sv e req w))) bookingRef) =
           Some (Some ''Paid'') \<and>
         map_option status (map_of (bookings (snd (paystackWebhook sv e req w))) bookingRef) =
           Some (Some ''Accepted'')))"
proof -
  let ?P = "\<lambda>r. \<exists>new. trace (snd r) = trace w @ new \<and>
     (written new = [] \<and> bookings (snd r) = bookings w \<or>
      (\<exists>pre bookingRef.
         new = pre @ [Db_write bookingRef] \<and> written pre = [] \<and> attempted pre \<noteq> [] \<and>
         map_option paymentStatus (map_of (bookings (snd r)) bookingRef) = Some (Some ''Paid'') \<and>
         map_option status (map_of (bookings (snd r)) bookingRef) = Some (Some ''Accepted'')))"
  have unchanged: "?P (st, w)" for st :: nat
    by (rule exI [of _ "[]"]) simp
  consider (early) st where "paystackWebhook sv e req w = (st, w)"
    | (tx) bookingRef amt where "authentic sv e req" "charge_success req bookingRef amt"
    using webhook_branches [of sv e req w] by auto
  then have "?P (paystackWebhook sv e req w)"
  proof cases
    case early
    then show ?thesis using unchanged by simp
  next
    case tx
    show ?thesis
    proof (cases "map_of (bookings w) bookingRef")
      case None
      with tx have "paystackWebhook sv e req w = (200, w)" by (rule webhook_absent)
      then show ?thesis using unchanged by simp
    next
      case (Some b)
      show ?thesis
      proof (cases "paymentStatus b = Some ''Paid''")
        case True
        with tx Some have "paystackWebhook sv e req w = (200, w)" by (rule webhook_paid)
        then show ?thesis using unchanged by simp
      next
        case False
        obtain new where new: "new \<noteq> []"
          "list_all (attempt_of (channel_sms e b (confirmation_message b))) new"
          "last new = Twilio_create (channel_sms e b (confirmation_message b))
                        (fst (dispatch sv e b (confirmation_message b) w))"
          "snd (dispatch sv e b (confirmation_message b) w) = w\<lparr>trace := trace w @ new\<rparr>"
          using dispatch_run by blast
        have quiet: "written new = []"
          using new(2) by (rule attempts_write_nothing)
        show ?thesis
        proof (cases "fst (dispatch sv e b (confirmation_message b) w)")
          case (Inl err)
          with new(4) have "dispatch sv e b (confirmation_message b) w =
              (Inl err, w\<lparr>trace := trace w @ new\<rparr>)"
            by (metis prod.collapse)
          with tx Some False have "paystackWebhook sv e req w = (500, w\<lparr>trace := trace w @ new\<rparr>)"
            by (rule webhook_not_sent)
          then show ?thesis using quiet by simp
        next
          case (Inr sid)
          with new(4) have "dispatch sv e b (confirmation_message b) w =
              (Inr sid, w\<lparr>trace := trace w @ new\<rparr>)"
            by (metis prod.collapse)
          with tx Some False have run: "paystackWebhook sv e req w =
              (200, apply_write bookingRef (mark_paid amt) (w\<lparr>trace := trace w @ new\<rparr>))"
            by (rule webhook_sent)
          have tried: "attempted new \<noteq> []"
            using new(1,3) by (rule last_attempted)
          have "trace (snd (paystackWebhook sv e req w)) = trace w @ new @ [Db_write bookingRef]"
            by (simp add: run apply_write_def)
          moreover have "map_option paymentStatus
              (map_of (bookings (snd (paystackWebhook sv e req w))) bookingRef) = Some (Some ''Paid'')"
            by (simp add: run map_of_apply_write Some mark_paid_def)
          moreover have "map_option status
              (map_of (bookings (snd (paystackWebhook sv e req w))) bookingRef) = Some (Some ''Accepted'')"
            by (simp add: run map_of_apply_write Some mark_paid_def)
          ultimately show ?thesis using quiet tried by blast
        qed
      qed
    qed
  qed
  then show ?thesis .
qed

theorem webhook_sends_before_commit_witness:
  "\<exists>new. trace (snd (paystackWebhook services_up env1 charge_request world1)) = trace world1 @ new \<and>
     (written new = [] \<and>
      bookings (snd (paystackWebhook services_up env1 charge_request world1)) = bookings world1 \<or>
      (\<exists>pre bookingRef.
         new = pre @ [Db_write bookingRef] \<and> written pre = [] \<and> attempted pre \<noteq> [] \<and>
         map_option paymentStatus
           (map_of (bookings (snd (paystackWebhook services_up env1 charge_request world1))) bookingRef) =
           Some (Some ''Paid'') \<and>
         map_option status
           (map_of (bookings (snd (paystackWebhook services_up env1 charge_request world1))) bookingRef) =
           Some (Some ''Accepted'')))"
  by (rule webhook_sends_before_commit)

text \<open>
  C2 as the specification words it has the message sent after the commit: on a first
  delivery for an unpaid booking the call of the messaging API is the first effect and
  the write the second.
\<close>

theorem webhook_send_precedes_commit_counterexample:
  "trace (snd (paystackWebhook services_up env1 charge_request world1)) =
     [Twilio_create (plain_sms env1 booking1 (confirmation_message booking1)) (Inr ''SM1''),
      Db_write ''booking1'']"
proof -
  have "paystackWebhook services_up env1 charge_request world1 =
          (200, apply_write ''booking1'' (mark_paid 5000)
                  (world1\<lparr>trace := [Twilio_create (plain_sms env1 booking1 (confirmation_message booking1))
                                      (Inr ''SM1'')]\<rparr>))"
    using ex_authentic ex_charge ex_lookup ex_unpaid ex_dispatch_up by (rule webhook_sent)
  then show ?thesis
    by (simp add: apply_write_def)
qed

section \<open>Properties of the payment initiator\<close>

lemma createBooking_missing:
  "missing_fields i \<Longrightarrow> createBooking sv e now i w = (Inl (Error ''Missing required fields''), w)"
  by (simp add: createBooking_def missing_fields_def)

lemma truthy_str_defined: "\<not> falsy_str v \<Longrightarrow> (v = None) = False"
  by (cases v) (simp_all add: falsy_str_def)

lemma truthy_num_defined: "\<not> falsy_num v \<Longrightarrow> (v = None) = False"
  by (cases v) (simp_all add: falsy_num_def)

text \<open>Past the guard, the one key of the stored object that can be undefined is the method.\<close>

lemma complete_undefined_keys:
  assumes "\<not> missing_fields i"
  shows "undefined_keys
           [(''style'', in_style i = None), (''length'', in_length i = None),
            (''price'', in_price i = None), (''clientName'', in_clientName i = None),
            (''date'', in_date i = None), (''time'', in_time i = None),
            (''method'', in_method i = None)] =
         (if in_method i = None then [''method''] else [])"
proof -
  from assms have "\<not> falsy_str (in_style i)" "\<not> falsy_str (in_length i)"
    "\<not> falsy_num (in_price i)" "\<not> falsy_str (in_clientName i)"
    "\<not> falsy_str (in_date i)" "\<not> falsy_str (in_time i)"
    by (simp_all add: missing_fields_def)
  then have "(in_style i = None) = False" "(in_length i = None) = False"
    "(in_price i = None) = False" "(in_clientName i = None) = False"
    "(in_date i = None) = False" "(in_time i = None) = False"
    by (simp_all add: truthy_str_defined truthy_num_defined)
  note defined = this
  show ?thesis
    unfolding defined undefined_keys_def by simp
qed

lemma createBooking_valid:
  assumes "\<not> missing_fields i"
    and "validatePhone (js_String (in_clientPhone i)) = Inr phone"
    and "validateEmail (js_String (in_email i)) = Inr email"
  shows "createBooking sv e now i w =
     (case collection_add sv (if in_method i = None then [''method''] else [])
             (stored_booking now i phone email) w of
        (Inl err, w1) \<Rightarrow> (Inl err, w1)
      | (Inr docId, w1) \<Rightarrow>
          (case paystack sv (trace w1) (initialize_request sv e i docId) of
             Inl err \<Rightarrow>
               (Inl err, w1\<lparr>trace := trace w1 @
                  [Paystack_initialize (initialize_request sv e i docId) (Inl err)]\<rparr>)
           | Inr d \<Rightarrow>
               (Inr (authorization_url d), w1\<lparr>trace := trace w1 @
                  [Paystack_initialize (initialize_request sv e i docId) (Inr d)]\<rparr>)))"
proof -
  from assms(1) have guard: "\<not> (falsy_str (in_style i) \<or> falsy_str (in_length i) \<or>
      falsy_num (in_price i) \<or> falsy_str (in_clientName i) \<or> falsy_str (in_clientPhone i) \<or>
      falsy_str (in_date i) \<or> falsy_str (in_time i) \<or> falsy_str (in_email i))"
    by (simp add: missing_fields_def)
  show ?thesis
    unfolding createBooking_def complete_undefined_keys [OF assms(1)]
    using guard assms(2,3)
    by (simp add: stored_booking_def initialize_request_def Let_def split: prod.splits sum.splits)
qed

text \<open>A complete request without a method is refused by the store, and nothing is written.\<close>

lemma createBooking_no_method:
  assumes "\<not> missing_fields i"
    and "validatePhone (js_String (in_clientPhone i)) = Inr phone"
    and "validateEmail (js_String (in_email i)) = Inr email"
    and "in_method i = None"
  shows "createBooking sv e now i w = (Inl (undefined_value_error ''method''), w)"
  unfolding createBooking_valid [OF assms(1-3)]
  using assms(4) by (simp add: collection_add_def)

lemma createBooking_accepts:
  assumes "\<not> missing_fields i"
    and "validatePhone (js_String (in_clientPhone i)) = Inr phone"
    and "validateEmail (js_String (in_email i)) = Inr email"
    and "in_method i \<noteq> None"
    and "map_of (bookings w) (auto_id sv (bookings w)) = None"
    and "paystack sv (trace w @ [Db_write (auto_id sv (bookings w))])
           (initialize_request sv e i (auto_id sv (bookings w))) = Inr d"
  shows "createBooking sv e now i w =
     (Inr (authorization_url d),
      \<lparr>bookings = bookings w @ [(auto_id sv (bookings w), stored_booking now i phone email)],
       trace = trace w @ [Db_write (auto_id sv (bookings w)),
                Paystack_initialize (initialize_request sv e i (auto_id sv (bookings w))) (Inr d)]\<rparr>)"
  unfolding createBooking_valid [OF assms(1-3)]
  using assms(4-6) by (simp add: collection_add_def Let_def)

lemma validateEmail_returns: "validateEmail x = Inr email \<Longrightarrow> email = x"
  by (simp add: validateEmail_def split: if_splits)

lemma truthy_email: "\<not> falsy_str v \<Longrightarrow> v = Some (js_String v)"
  by (cases v) (simp_all add: falsy_str_def js_String_def)

lemma createBooking_persisted:
  assumes "\<not> missing_fields i"
    and "validatePhone (js_String (in_clientPhone i)) = Inr phone"
    and "validateEmail (js_String (in_email i)) = Inr email"
    and "in_method i \<noteq> None"
    and "map_of (bookings w) (auto_id sv (bookings w)) = None"
  shows "bookings (snd (createBooking sv e now i w)) =
           bookings w @ [(auto_id sv (bookings w), stored_booking now i phone email)]"
  unfolding createBooking_valid [OF assms(1-3)]
  using assms(4,5) by (simp add: collection_add_def Let_def split: sum.splits)

text \<open>
  C5, amended. When none of the eight required fields is missing in the sense of the
  handler's guard (each is defined and truthy: a non-empty string, a non-zero price), the
  method is defined, the phone and the email are valid and the id the store assigns is
  new, \<^verbatim>\<open>createBooking\<close> adds one booking to the store, with status Pending, paymentStatus
  Unpaid, the normalised phone and the email as given, and, when the gateway answers,
  returns the \<^verbatim>\<open>authorization_url\<close> of its answer. When a required field is undefined,
  empty or zero it throws the missing-fields error and the world is as before.
\<close>

theorem createBooking_persists:
  "(\<not> missing_fields i \<and> in_method i \<noteq> None \<and>
    validatePhone (js_String (in_clientPhone i)) = Inr phone \<and>
    validateEmail (js_String (in_email i)) = Inr email \<and>
    map_of (bookings w) (auto_id sv (bookings w)) = None \<longrightarrow>
      bookings (snd (createBooking sv e now i w)) =
        bookings w @ [(auto_id sv (bookings w), stored_booking now i phone email)] \<and>
      status (stored_booking now i phone email) = Some ''Pending'' \<and>
      paymentStatus (stored_booking now i phone email) = Some ''Unpaid'' \<and>
      clientPhone (stored_booking now i phone email) = Some phone \<and>
      clientEmail (stored_booking now i phone email) = in_email i \<and>
      (\<forall>d. paystack sv (trace w @ [Db_write (auto_id sv (bookings w))])
             (initialize_request sv e i (auto_id sv (bookings w))) = Inr d \<longrightarrow>
           fst (createBooking sv e now i w) = Inr (authorization_url d))) \<and>
   (missing_fields i \<longrightarrow>
      createBooking sv e now i w = (Inl (Error ''Missing required fields''), w))"
proof (intro conjI impI allI)
  assume "missing_fields i"
  then show "createBooking sv e now i w = (Inl (Error ''Missing required fields''), w)"
    by (rule createBooking_missing)
next
  assume valid: "\<not> missing_fields i \<and> in_method i \<noteq> None \<and>
    validatePhone (js_String (in_clientPhone i)) = Inr phone \<and>
    validateEmail (js_String (in_email i)) = Inr email \<and>
    map_of (bookings w) (auto_id sv (bookings w)) = None"
  then show "bookings (snd (createBooking sv e now i w)) =
        bookings w @ [(auto_id sv (bookings w), stored_booking now i phone email)]"
    by (simp add: createBooking_persisted)
  show "status (stored_booking now i phone email) = Some ''Pending''"
    and "paymentStatus (stored_booking now i phone email) = Some ''Unpaid''"
    and "clientPhone (stored_booking now i phone email) = Some phone"
    by (simp_all add: stored_booking_def)
  from valid have "email = js_String (in_email i)" and "\<not> falsy_str (in_email i)"
    by (auto dest: validateEmail_returns simp: missing_fields_def)
  then show "clientEmail (stored_booking now i phone email) = in_email i"
    using truthy_email [of "in_email i"] by (simp add: stored_booking_def)
  fix d
  assume "paystack sv (trace w @ [Db_write (auto_id sv (bookings w))])
             (initialize_request sv e i (auto_id sv (bookings w))) = Inr d"
  with valid show "fst (createBooking sv e now i w) = Inr (authorization_url d)"
    by (simp add: createBooking_accepts)
qed

lemma ex_phone: "validatePhone ''082 123 4567'' = Inr ''+27821234567''"
  by (simp add: validatePhone_def test_11_15_digits_def startsWith_def is_digit_def)

lemma ex_email: "validateEmail ''thandi@example.com'' = Inr ''thandi@example.com''"
  by (simp add: validateEmail_def test_email_def not_space_at_def is_space_def)

lemma ex_complete: "\<not> missing_fields (input1\<lparr>in_method := v\<rparr>)"
  by (simp add: missing_fields_def input1_def falsy_str_def falsy_num_def)

lemma ex_valid:
  "validatePhone (js_String (in_clientPhone (input1\<lparr>in_method := v\<rparr>))) = Inr ''+27821234567''"
  "validateEmail (js_String (in_email (input1\<lparr>in_method := v\<rparr>))) = Inr ''thandi@example.com''"
  using ex_phone ex_email by (simp_all add: input1_def js_String_def)

lemma ex_fresh: "map_of (bookings world1) (auto_id services_up (bookings world1)) = None"
  by (simp add: world1_def services_up_def)

theorem createBooking_persists_witness:
  "bookings (snd (createBooking services_up env1 2000 (input1\<lparr>in_method := Some ''sms''\<rparr>) world1)) =
     [(''booking1'', booking1),
      (''booking2'', stored_booking 2000 (input1\<lparr>in_method := Some ''sms''\<rparr>)
                       ''+27821234567'' ''thandi@example.com'')] \<and>
   fst (createBooking services_up env1 2000 (input1\<lparr>in_method := Some ''sms''\<rparr>) world1) =
     Inr (authorization_url gateway_reply) \<and>
   createBooking services_up env1 2000 (input1\<lparr>in_date := None\<rparr>) world1 =
     (Inl (Error ''Missing required fields''), world1)"
proof -
  have valid: "\<not> missing_fields (input1\<lparr>in_method := Some ''sms''\<rparr>) \<and>
      in_method (input1\<lparr>in_method := Some ''sms''\<rparr>) \<noteq> None \<and>
      validatePhone (js_String (in_clientPhone (input1\<lparr>in_method := Some ''sms''\<rparr>))) =
        Inr ''+27821234567'' \<and>
      validateEmail (js_String (in_email (input1\<lparr>in_method := Some ''sms''\<rparr>))) =
        Inr ''thandi@example.com'' \<and>
      map_of (bookings world1) (auto_id services_up (bookings world1)) = None"
    using ex_complete ex_valid ex_fresh by simp
  have answer: "paystack services_up (trace world1 @ [Db_write (auto_id services_up (bookings world1))])
      (initialize_request services_up env1 (input1\<lparr>in_method := Some ''sms''\<rparr>)
         (auto_id services_up (bookings world1))) = Inr gateway_reply"
    by (simp add: services_up_def)
  have missing: "missing_fields (input1\<lparr>in_date := None\<rparr>)"
    by (simp add: missing_fields_def falsy_str_def)
  from createBooking_persists [where i = "input1\<lparr>in_method := Some ''sms''\<rparr>" and
      phone = "''+27821234567''" and email = "''thandi@example.com''" and w = world1 and
      sv = services_up and now = 2000 and e = env1] valid answer
  have "bookings (snd (createBooking services_up env1 2000 (input1\<lparr>in_method := Some ''sms''\<rparr>) world1)) =
          bookings world1 @ [(auto_id services_up (bookings world1),
             stored_booking 2000 (input1\<lparr>in_method := Some ''sms''\<rparr>)
               ''+27821234567'' ''thandi@example.com'')]"
    and "fst (createBooking services_up env1 2000 (input1\<lparr>in_method := Some ''sms''\<rparr>) world1) =
          Inr (authorization_url gateway_reply)"
    by blast+
  moreover from createBooking_persists [where i = "input1\<lparr>in_date := None\<rparr>" and w = world1 and
      sv = services_up and now = 2000 and e = env1] missing
  have "createBooking services_up env1 2000 (input1\<lparr>in_date := None\<rparr>) world1 =
     (Inl (Error ''Missing required fields''), world1)"
    by blast
  ultimately show ?thesis
    by (simp add: world1_def services_up_def)
qed

text \<open>
  C5 as the specification words it asks only that the required fields be present and the
  phone and email valid. A request whose style is the empty string, and one whose price
  is 0, have every required field present and are refused as missing fields; a request
  with every required field and no method is refused by the store. None of the three
  persists anything.
\<close>

theorem createBooking_blank_field_counterexample:
  "all_present (input1\<lparr>in_style := Some ''''\<rparr>) \<and>
   all_present (input1\<lparr>in_price := Some 0\<rparr>) \<and>
   all_present (input1\<lparr>in_method := None\<rparr>) \<and>
   validatePhone (js_String (in_clientPhone input1)) = Inr ''+27821234567'' \<and>
   validateEmail (js_String (in_email input1)) = Inr ''thandi@example.com'' \<and>
   createBooking services_up env1 2000 (input1\<lparr>in_style := Some ''''\<rparr>) world1 =
     (Inl (Error ''Missing required fields''), world1) \<and>
   createBooking services_up env1 2000 (input1\<lparr>in_price := Some 0\<rparr>) world1 =
     (Inl (Error ''Missing required fields''), world1) \<and>
   createBooking services_up env1 2000 (input1\<lparr>in_method := None\<rparr>) world1 =
     (Inl (undefined_value_error ''method''), world1)"
proof -
  have "missing_fields (input1\<lparr>in_style := Some ''''\<rparr>)"
    and "missing_fields (input1\<lparr>in_price := Some 0\<rparr>)"
    by (simp_all add: missing_fields_def falsy_str_def falsy_num_def)
  then have "createBooking services_up env1 2000 (input1\<lparr>in_style := Some ''''\<rparr>) world1 =
     (Inl (Error ''Missing required fields''), world1)"
   and "createBooking services_up env1 2000 (input1\<lparr>in_price := Some 0\<rparr>) world1 =
     (Inl (Error ''Missing required fields''), world1)"
    by (simp_all add: createBooking_missing)
  moreover have "createBooking services_up env1 2000 (input1\<lparr>in_method := None\<rparr>) world1 =
     (Inl (undefined_value_error ''method''), world1)"
    by (rule createBooking_no_method [OF ex_complete ex_valid]) simp
  moreover have "all_present (input1\<lparr>in_style := Some ''''\<rparr>)"
    and "all_present (input1\<lparr>in_price := Some 0\<rparr>)"
    and "all_present (input1\<lparr>in_method := None\<rparr>)"
    by (simp_all add: all_present_def input1_def)
  ultimately show ?thesis
    using ex_phone ex_email by (simp add: input1_def js_String_def)
qed

section \<open>Properties of the reminder sweeper\<close>

lemma remind_one_dispatch:
  "remind_one sv e (docId, b) w =
     (case dispatch sv e b (reminder_message b) w of
        (Inl err, w1) \<Rightarrow> w1
      | (Inr sid, w1) \<Rightarrow> snd (doc_update docId mark_reminded w1))"
  by (simp add: remind_one_def dispatch_def Let_def split: prod.splits sum.splits)

lemma map_entry_absent: "k \<notin> fst ` set xs \<Longrightarrow> AList.map_entry k f xs = xs"
  by (induction xs) auto

lemma doc_update_bookings:
  "bookings (snd (doc_update docId f w)) = AList.map_entry docId f (bookings w)"
proof (cases "map_of (bookings w) docId")
  case None
  then have "docId \<notin> fst ` set (bookings w)"
    by (simp add: map_of_eq_None_iff)
  then have "AList.map_entry docId f (bookings w) = bookings w"
    by (rule map_entry_absent)
  with None show ?thesis by (simp add: doc_update_def)
next
  case (Some b)
  then show ?thesis by (simp add: doc_update_def apply_write_def)
qed

lemma doc_update_trace:
  "\<exists>new. trace (snd (doc_update docId f w)) = trace w @ new \<and> attempted new = []"
  by (cases "map_of (bookings w) docId") (simp_all add: doc_update_def apply_write_def)

lemma remind_one_bookings:
  "bookings (remind_one sv e (docId, b) w) =
     (if isl (fst (dispatch sv e b (reminder_message b) w)) then bookings w
      else AList.map_entry docId mark_reminded (bookings w))"
proof -
  have keep: "bookings (snd (dispatch sv e b (reminder_message b) w)) = bookings w"
    by (rule dispatch_keeps_bookings)
  obtain sent w1 where d: "dispatch sv e b (reminder_message b) w = (sent, w1)"
    by (cases "dispatch sv e b (reminder_message b) w")
  with keep have "bookings w1 = bookings w" by simp
  then show ?thesis
    unfolding remind_one_dispatch d
    by (cases sent) (simp_all add: doc_update_bookings)
qed

lemma remind_one_trace:
  "\<exists>new. trace (remind_one sv e (docId, b) w) =
            trace (snd (dispatch sv e b (reminder_message b) w)) @ new \<and> attempted new = []"
proof -
  obtain sent w1 where d: "dispatch sv e b (reminder_message b) w = (sent, w1)"
    by (cases "dispatch sv e b (reminder_message b) w")
  show ?thesis
    unfolding remind_one_dispatch d
    using doc_update_trace [of docId mark_reminded w1] by (cases sent) simp_all
qed

lemma remind_one_sends:
  "\<exists>new. trace (remind_one sv e (docId, b) w) = trace w @ new \<and>
         set (attempted new) \<subseteq> {channel_sms e b (reminder_message b)}"
proof -
  obtain new where new: "list_all (attempt_of (channel_sms e b (reminder_message b))) new"
    "snd (dispatch sv e b (reminder_message b) w) = w\<lparr>trace := trace w @ new\<rparr>"
    using dispatch_run by blast
  obtain more where more: "trace (remind_one sv e (docId, b) w) =
      trace (snd (dispatch sv e b (reminder_message b) w)) @ more" "attempted more = []"
    using remind_one_trace by blast
  have "trace (remind_one sv e (docId, b) w) = trace w @ (new @ more)"
    by (simp add: more(1) new(2))
  moreover have "set (attempted (new @ more)) \<subseteq> {channel_sms e b (reminder_message b)}"
    using attempts_are_of [OF new(1)] by (simp add: attempted_append more(2))
  ultimately show ?thesis by blast
qed

lemma reminders_loop_append:
  "reminders_loop sv e (xs @ ys) w = reminders_loop sv e ys (reminders_loop sv e xs w)"
  by (induction xs arbitrary: w) simp_all

lemma reminders_loop_sends:
  "\<exists>new. trace (reminders_loop sv e docs w) = trace w @ new \<and>
         (\<forall>m \<in> set (attempted new). \<exists>doc \<in> set docs.
            m = channel_sms e (snd doc) (reminder_message (snd doc)))"
proof (induction docs arbitrary: w)
  case Nil
  show ?case by simp
next
  case (Cons doc docs)
  obtain docId b where doc: "doc = (docId, b)" by (cases doc)
  obtain new1 where new1: "trace (remind_one sv e (docId, b) w) = trace w @ new1"
    "set (attempted new1) \<subseteq> {channel_sms e b (reminder_message b)}"
    using remind_one_sends by blast
  obtain new2 where new2:
    "trace (reminders_loop sv e docs (remind_one sv e (docId, b) w)) =
       trace (remind_one sv e (docId, b) w) @ new2"
    "\<forall>m \<in> set (attempted new2). \<exists>doc \<in> set docs.
        m = channel_sms e (snd doc) (reminder_message (snd doc))"
    using Cons.IH by blast
  have "trace (reminders_loop sv e (doc # docs) w) = trace w @ (new1 @ new2)"
    by (simp add: doc new1(1) new2(1))
  moreover have "\<forall>m \<in> set (attempted (new1 @ new2)). \<exists>d \<in> set (doc # docs).
        m = channel_sms e (snd d) (reminder_message (snd d))"
    using new1(2) new2(2) by (auto simp: attempted_append doc)
  ultimately show ?case by blast
qed

lemma reminders_loop_other:
  "docId \<notin> fst ` set docs \<Longrightarrow>
   map_of (bookings (reminders_loop sv e docs w)) docId = map_of (bookings w) docId"
proof (induction docs arbitrary: w)
  case Nil
  show ?case by simp
next
  case (Cons doc docs)
  obtain k b where doc: "doc = (k, b)" by (cases doc)
  with Cons.prems have ne: "docId \<noteq> k" and rest: "docId \<notin> fst ` set docs" by auto
  have "map_of (bookings (remind_one sv e (k, b) w)) docId = map_of (bookings w) docId"
    using ne by (simp add: remind_one_bookings map_of_map_entry)
  with Cons.IH [OF rest] show ?case by (simp add: doc)
qed

lemma reminders_loop_distinct:
  "distinct (map fst (bookings w)) \<Longrightarrow> distinct (map fst (bookings (reminders_loop sv e docs w)))"
proof (induction docs arbitrary: w)
  case Nil
  then show ?case by simp
next
  case (Cons doc docs)
  obtain k b where doc: "doc = (k, b)" by (cases doc)
  have "distinct (map fst (bookings (remind_one sv e (k, b) w)))"
    using Cons.prems by (simp add: remind_one_bookings distinct_map_entry)
  from Cons.IH [OF this] show ?case by (simp add: doc)
qed

lemma due_later: "due now b \<Longrightarrow> now \<le> now' \<Longrightarrow> due now' b"
  by (auto simp: due_def split: option.splits)

lemma reminded_not_due: "\<not> due now (mark_reminded b)"
  by (simp add: due_def mark_reminded_def)

lemma sweep_member:
  assumes ids: "distinct (map fst (bookings w))"
    and batch: "reminder_query now (bookings w) = pre @ (docId, b) # post"
    and send: "dispatch sv e b (reminder_message b) (reminders_loop sv e pre w) = (sent, w1)"
  shows "set (reminder_query now (bookings w)) =
           {(k, x). (k, x) \<in> set (bookings w) \<and> status x = Some ''Accepted'' \<and>
              reminderSent x = Some False \<and> (\<exists>t. reminderAt x = Some t \<and> t \<le> now)} \<and>
         (\<exists>rest. trace (sendFiveHourReminders sv e now w) = trace w1 @ rest) \<and>
         map_of (bookings (sendFiveHourReminders sv e now w)) docId =
           Some (if isl sent then b else b\<lparr>reminderSent := Some True\<rparr>) \<and>
         (\<not> isl sent \<longrightarrow>
            (\<forall>now'. docId \<notin> fst ` set (reminder_query now'
                                           (bookings (sendFiveHourReminders sv e now w))))) \<and>
         (isl sent \<longrightarrow>
            (\<forall>now'. now \<le> now' \<longrightarrow>
               (docId, b) \<in> set (reminder_query now'
                                   (bookings (sendFiveHourReminders sv e now w))))) \<and>
         (\<forall>k. k \<notin> fst ` set (reminder_query now (bookings w)) \<longrightarrow>
            map_of (bookings (sendFiveHourReminders sv e now w)) k = map_of (bookings w) k)"
proof -
  define w0 where "w0 = reminders_loop sv e pre w"
  define wA where "wA = remind_one sv e (docId, b) w0"
  define final where "final = sendFiveHourReminders sv e now w"
  have final: "final = reminders_loop sv e post wA"
    by (simp add: final_def sendFiveHourReminders_def batch reminders_loop_append wA_def w0_def)
  have member: "(docId, b) \<in> set (reminder_query now (bookings w))"
    by (simp add: batch)
  then have stored: "(docId, b) \<in> set (bookings w)" and due: "due now b"
    by (auto simp: reminder_query_def)
  have "distinct (map fst (reminder_query now (bookings w)))"
    unfolding reminder_query_def using ids by (rule distinct_map_filter)
  then have not_pre: "docId \<notin> fst ` set pre" and not_post: "docId \<notin> fst ` set post"
    by (auto simp: batch)
  have lookup: "map_of (bookings w) docId = Some b"
    using ids stored by simp
  have lookup0: "map_of (bookings w0) docId = Some b"
    unfolding w0_def using lookup by (simp add: reminders_loop_other [OF not_pre])
  have sent: "fst (dispatch sv e b (reminder_message b) w0) = sent"
    using send by (simp add: w0_def)
  have lookupA: "map_of (bookings wA) docId = Some (if isl sent then b else mark_reminded b)"
    unfolding wA_def by (simp add: remind_one_bookings sent lookup0 map_of_map_entry)
  have lookupF: "map_of (bookings final) docId = Some (if isl sent then b else mark_reminded b)"
    unfolding final using lookupA by (simp add: reminders_loop_other [OF not_post])
  have distinctF: "distinct (map fst (bookings final))"
    unfolding final_def sendFiveHourReminders_def using ids by (rule reminders_loop_distinct)
  have part1: "set (reminder_query now (bookings w)) =
           {(k, x). (k, x) \<in> set (bookings w) \<and> status x = Some ''Accepted'' \<and>
              reminderSent x = Some False \<and> (\<exists>t. reminderAt x = Some t \<and> t \<le> now)}"
    by (auto simp: reminder_query_def due_def split: option.splits)
  have part2: "\<exists>rest. trace final = trace w1 @ rest"
  proof -
    obtain more where "trace wA = trace (snd (dispatch sv e b (reminder_message b) w0)) @ more"
      unfolding wA_def using remind_one_trace by blast
    then have a: "trace wA = trace w1 @ more"
      using send by (simp add: w0_def)
    obtain new where "trace final = trace wA @ new"
      unfolding final using reminders_loop_sends by blast
    with a show ?thesis by simp
  qed
  have part3: "map_of (bookings final) docId =
      Some (if isl sent then b else b\<lparr>reminderSent := Some True\<rparr>)"
    using lookupF by (simp add: mark_reminded_def)
  have part4: "docId \<notin> fst ` set (reminder_query now' (bookings final))" if ok: "\<not> isl sent" for now'
  proof
    assume "docId \<in> fst ` set (reminder_query now' (bookings final))"
    then obtain x where x: "(docId, x) \<in> set (bookings final)" and d: "due now' x"
      by (auto simp: reminder_query_def)
    from distinctF x have "map_of (bookings final) docId = Some x" by simp
    with lookupF ok have "x = mark_reminded b" by simp
    with d show False by (simp add: reminded_not_due)
  qed
  have part5: "(docId, b) \<in> set (reminder_query now' (bookings final))"
    if failed: "isl sent" and later: "now \<le> now'" for now'
  proof -
    from lookupF failed have "map_of (bookings final) docId = Some b" by simp
    then have "(docId, b) \<in> set (bookings final)" by (rule map_of_SomeD)
    moreover have "due now' b" using due later by (rule due_later)
    ultimately show ?thesis by (simp add: reminder_query_def)
  qed
  have part6: "map_of (bookings final) k = map_of (bookings w) k"
    if "k \<notin> fst ` set (reminder_query now (bookings w))" for k
    unfolding final_def sendFiveHourReminders_def using that by (rule reminders_loop_other)
  from part1 part2 part3 part4 part5 part6 show ?thesis
    unfolding final_def by blast
qed

lemma reminder_query_filter:
  "reminder_query now st = filter (\<lambda>doc. due now (snd doc)) st"
  unfolding reminder_query_def by (rule filter_cong) auto

lemma last_attempted_is:
  assumes "new \<noteq> []" and "last new = Twilio_create m r"
  shows "m \<in> set (attempted new)"
proof -
  from assms have "new = butlast new @ [Twilio_create m r]"
    by (metis append_butlast_last_id)
  then have "attempted new = attempted (butlast new) @ [m]"
    by (metis attempted_append attempted.simps(1,2))
  then show ?thesis by simp
qed

lemma dispatch_attempts_channel:
  "\<exists>new. snd (dispatch sv e b message w) = w\<lparr>trace := trace w @ new\<rparr> \<and>
         channel_sms e b message \<in> set (attempted new)"
proof -
  obtain new where new: "new \<noteq> []"
    "last new = Twilio_create (channel_sms e b message) (fst (dispatch sv e b message w))"
    "snd (dispatch sv e b message w) = w\<lparr>trace := trace w @ new\<rparr>"
    using dispatch_run by blast
  from new(1,2) have "channel_sms e b message \<in> set (attempted new)"
    by (rule last_attempted_is)
  with new(3) show ?thesis by blast
qed

text \<open>
  C8. A sweep takes exactly the bookings with status Accepted, reminderSent false and
  reminderAt at most now: the query is the filter of the store by these three conditions,
  every message of the sweep is the reminder of a booking that meets them, and every
  booking of the store that meets them is sent its reminder, in its turn, in the world its
  predecessors in the batch left, whether their sends succeeded or failed. When its send
  succeeds, the sweep leaves it with reminderSent true, and no later sweep takes it; when
  its send fails, the sweep leaves it as it was, and every later sweep takes it again. A
  booking that does not meet the conditions is left as it was. The ids of the store are
  assumed distinct.
\<close>

theorem reminder_sweep:
  "(\<forall>b. due now b =
          (status b = Some ''Accepted'' \<and> reminderSent b = Some False \<and>
           (\<exists>t. reminderAt b = Some t \<and> t \<le> now))) \<and>
   reminder_query now (bookings w) = filter (\<lambda>doc. due now (snd doc)) (bookings w) \<and>
   (distinct (map fst (bookings w)) \<longrightarrow>
      (\<exists>new. trace (sendFiveHourReminders sv e now w) = trace w @ new \<and>
         (\<forall>m \<in> set (attempted new). \<exists>doc \<in> set (bookings w).
            due now (snd doc) \<and> m = channel_sms e (snd doc) (reminder_message (snd doc))) \<and>
         (\<forall>doc \<in> set (bookings w).
            if due now (snd doc)
            then channel_sms e (snd doc) (reminder_message (snd doc)) \<in> set (attempted new) \<and>
                 (\<exists>pre post sent w1.
                    reminder_query now (bookings w) = pre @ doc # post \<and>
                    dispatch sv e (snd doc) (reminder_message (snd doc))
                      (reminders_loop sv e pre w) = (sent, w1) \<and>
                    (\<exists>rest. trace (sendFiveHourReminders sv e now w) = trace w1 @ rest) \<and>
                    map_of (bookings (sendFiveHourReminders sv e now w)) (fst doc) =
                      Some (if isl sent then snd doc else (snd doc)\<lparr>reminderSent := Some True\<rparr>) \<and>
                    (\<not> isl sent \<longrightarrow>
                       (\<forall>now'. fst doc \<notin> fst ` set (reminder_query now'
                                   (bookings (sendFiveHourReminders sv e now w))))) \<and>
                    (isl sent \<longrightarrow>
                       (\<forall>now'. now \<le> now' \<longrightarrow>
                          doc \<in> set (reminder_query now'
                                   (bookings (sendFiveHourReminders sv e now w))))))
            else map_of (bookings (sendFiveHourReminders sv e now w)) (fst doc) = Some (snd doc))))"
proof (intro conjI impI allI)
  fix b
  show "due now b =
          (status b = Some ''Accepted'' \<and> reminderSent b = Some False \<and>
           (\<exists>t. reminderAt b = Some t \<and> t \<le> now))"
    by (auto simp: due_def split: option.splits)
next
  show "reminder_query now (bookings w) = filter (\<lambda>doc. due now (snd doc)) (bookings w)"
    by (rule reminder_query_filter)
next
  assume ids: "distinct (map fst (bookings w))"
  define final where "final = sendFiveHourReminders sv e now w"
  have query: "reminder_query now (bookings w) = filter (\<lambda>doc. due now (snd doc)) (bookings w)"
    by (rule reminder_query_filter)
  obtain new where new: "trace final = trace w @ new"
    and sends: "\<forall>m \<in> set (attempted new). \<exists>doc \<in> set (reminder_query now (bookings w)).
        m = channel_sms e (snd doc) (reminder_message (snd doc))"
    unfolding final_def sendFiveHourReminders_def using reminders_loop_sends by blast
  have only: "\<forall>m \<in> set (attempted new). \<exists>doc \<in> set (bookings w).
      due now (snd doc) \<and> m = channel_sms e (snd doc) (reminder_message (snd doc))"
  proof
    fix m
    assume "m \<in> set (attempted new)"
    with sends obtain doc where "doc \<in> set (reminder_query now (bookings w))"
      and "m = channel_sms e (snd doc) (reminder_message (snd doc))"
      by blast
    then show "\<exists>doc \<in> set (bookings w).
        due now (snd doc) \<and> m = channel_sms e (snd doc) (reminder_message (snd doc))"
      unfolding query by auto
  qed
  have each: "if due now (snd doc)
      then channel_sms e (snd doc) (reminder_message (snd doc)) \<in> set (attempted new) \<and>
           (\<exists>pre post sent w1.
              reminder_query now (bookings w) = pre @ doc # post \<and>
              dispatch sv e (snd doc) (reminder_message (snd doc))
                (reminders_loop sv e pre w) = (sent, w1) \<and>
              (\<exists>rest. trace final = trace w1 @ rest) \<and>
              map_of (bookings final) (fst doc) =
                Some (if isl sent then snd doc else (snd doc)\<lparr>reminderSent := Some True\<rparr>) \<and>
              (\<not> isl sent \<longrightarrow>
                 (\<forall>now'. fst doc \<notin> fst ` set (reminder_query now' (bookings final)))) \<and>
              (isl sent \<longrightarrow>
                 (\<forall>now'. now \<le> now' \<longrightarrow> doc \<in> set (reminder_query now' (bookings final)))))
      else map_of (bookings final) (fst doc) = Some (snd doc)"
    if stored: "doc \<in> set (bookings w)" for doc
  proof (cases "due now (snd doc)")
    case True
    obtain docId b where doc: "doc = (docId, b)" by (cases doc)
    from stored True have "doc \<in> set (reminder_query now (bookings w))"
      unfolding query by simp
    then obtain pre post where batch: "reminder_query now (bookings w) = pre @ (docId, b) # post"
      unfolding doc by (meson split_list)
    define w0 where "w0 = reminders_loop sv e pre w"
    obtain sent w1 where send: "dispatch sv e b (reminder_message b) w0 = (sent, w1)"
      by (cases "dispatch sv e b (reminder_message b) w0")
    note member = sweep_member [OF ids batch send [unfolded w0_def]]
    from member obtain rest where rest: "trace final = trace w1 @ rest"
      unfolding final_def by blast
    obtain n0 where n0: "trace w0 = trace w @ n0"
      unfolding w0_def using reminders_loop_sends by blast
    obtain n1 where n1: "snd (dispatch sv e b (reminder_message b) w0) = w0\<lparr>trace := trace w0 @ n1\<rparr>"
      and attempt: "channel_sms e b (reminder_message b) \<in> set (attempted n1)"
      using dispatch_attempts_channel by blast
    from n1 send have "trace w1 = trace w0 @ n1" by simp
    with rest n0 new have "new = n0 @ n1 @ rest" by simp
    with attempt have sent_it: "channel_sms e b (reminder_message b) \<in> set (attempted new)"
      by (simp add: attempted_append)
    from member rest have "\<exists>pre post sent w1.
        reminder_query now (bookings w) = pre @ doc # post \<and>
        dispatch sv e (snd doc) (reminder_message (snd doc)) (reminders_loop sv e pre w) = (sent, w1) \<and>
        (\<exists>rest. trace final = trace w1 @ rest) \<and>
        map_of (bookings final) (fst doc) =
          Some (if isl sent then snd doc else (snd doc)\<lparr>reminderSent := Some True\<rparr>) \<and>
        (\<not> isl sent \<longrightarrow>
           (\<forall>now'. fst doc \<notin> fst ` set (reminder_query now' (bookings final)))) \<and>
        (isl sent \<longrightarrow>
           (\<forall>now'. now \<le> now' \<longrightarrow> doc \<in> set (reminder_query now' (bookings final))))"
      unfolding final_def doc fst_conv snd_conv
      using batch send [unfolded w0_def] by blast
    with True sent_it show ?thesis by (simp add: doc)
  next
    case False
    have "fst doc \<notin> fst ` set (reminder_query now (bookings w))"
    proof
      assume "fst doc \<in> fst ` set (reminder_query now (bookings w))"
      then obtain x where x: "(fst doc, x) \<in> set (bookings w)" and d: "due now x"
        unfolding query by auto
      from ids x have "map_of (bookings w) (fst doc) = Some x" by simp
      moreover from ids stored have "map_of (bookings w) (fst doc) = Some (snd doc)" by simp
      ultimately have "x = snd doc" by simp
      with d False show False by simp
    qed
    then have "map_of (bookings final) (fst doc) = map_of (bookings w) (fst doc)"
      unfolding final_def sendFiveHourReminders_def by (rule reminders_loop_other)
    moreover from ids stored have "map_of (bookings w) (fst doc) = Some (snd doc)" by simp
    ultimately show ?thesis using False by simp
  qed
  from new only each
  show "\<exists>new. trace (sendFiveHourReminders sv e now w) = trace w @ new \<and>
         (\<forall>m \<in> set (attempted new). \<exists>doc \<in> set (bookings w).
            due now (snd doc) \<and> m = channel_sms e (snd doc) (reminder_message (snd doc))) \<and>
         (\<forall>doc \<in> set (bookings w).
            if due now (snd doc)
            then channel_sms e (snd doc) (reminder_message (snd doc)) \<in> set (attempted new) \<and>
                 (\<exists>pre post sent w1.
                    reminder_query now (bookings w) = pre @ doc # post \<and>
                    dispatch sv e (snd doc) (reminder_message (snd doc))
                      (reminders_loop sv e pre w) = (sent, w1) \<and>
                    (\<exists>rest. trace (sendFiveHourReminders sv e now w) = trace w1 @ rest) \<and>
                    map_of (bookings (sendFiveHourReminders sv e now w)) (fst doc) =
                      Some (if isl sent then snd doc else (snd doc)\<lparr>reminderSent := Some True\<rparr>) \<and>
                    (\<not> isl sent \<longrightarrow>
                       (\<forall>now'. fst doc \<notin> fst ` set (reminder_query now'
                                   (bookings (sendFiveHourReminders sv e now w))))) \<and>
                    (isl sent \<longrightarrow>
                       (\<forall>now'. now \<le> now' \<longrightarrow>
                          doc \<in> set (reminder_query now'
                                   (bookings (sendFiveHourReminders sv e now w))))))
            else map_of (bookings (sendFiveHourReminders sv e now w)) (fst doc) = Some (snd doc))"
    unfolding final_def by blast
qed

lemma ex_ids2: "distinct (map fst (bookings world2))"
  by (simp add: world2_def)

lemma ex_due2:
  "due 5000 booking_due1" "due 5000 booking_due2" "\<not> due 5000 booking1"
  by (simp_all add: due_def booking_due1_def booking_due2_def booking1_def)

lemma ex_unreachable: "isl (fst (dispatch services_partial env1 booking_due1 msg w))"
  unfolding dispatch_message notifier_3
  by (simp add: services_partial_def services_up_def booking_due1_def booking1_def plain_sms_def Let_def)

lemma ex_reachable: "\<not> isl (fst (dispatch services_partial env1 booking_due2 msg w))"
  unfolding dispatch_message notifier_3
  by (simp add: services_partial_def services_up_def booking_due2_def booking1_def whatsapp_sms_def
      js_String_def Let_def)

theorem reminder_sweep_witness:
  "map_of (bookings (sendFiveHourReminders services_partial env1 5000 world2)) ''booking1'' =
     Some booking_due1 \<and>
   map_of (bookings (sendFiveHourReminders services_partial env1 5000 world2)) ''booking2'' =
     Some (booking_due2\<lparr>reminderSent := Some True\<rparr>) \<and>
   map_of (bookings (sendFiveHourReminders services_partial env1 5000 world2)) ''booking3'' =
     Some booking1"
proof -
  let ?final = "sendFiveHourReminders services_partial env1 5000 world2"
  from reminder_sweep [where now = 5000 and w = world2 and sv = services_partial and e = env1] ex_ids2
  obtain new where each: "\<forall>doc \<in> set (bookings world2).
      if due 5000 (snd doc)
      then channel_sms env1 (snd doc) (reminder_message (snd doc)) \<in> set (attempted new) \<and>
           (\<exists>pre post sent w1.
              reminder_query 5000 (bookings world2) = pre @ doc # post \<and>
              dispatch services_partial env1 (snd doc) (reminder_message (snd doc))
                (reminders_loop services_partial env1 pre world2) = (sent, w1) \<and>
              (\<exists>rest. trace ?final = trace w1 @ rest) \<and>
              map_of (bookings ?final) (fst doc) =
                Some (if isl sent then snd doc else (snd doc)\<lparr>reminderSent := Some True\<rparr>) \<and>
              (\<not> isl sent \<longrightarrow>
                 (\<forall>now'. fst doc \<notin> fst ` set (reminder_query now' (bookings ?final)))) \<and>
              (isl sent \<longrightarrow>
                 (\<forall>now'. 5000 \<le> now' \<longrightarrow> doc \<in> set (reminder_query now' (bookings ?final)))))
      else map_of (bookings ?final) (fst doc) = Some (snd doc)"
    by blast
  have "(''booking1'', booking_due1) \<in> set (bookings world2)"
    by (simp add: world2_def)
  with each ex_due2(1) obtain pre1 sent1 w1 where
    "dispatch services_partial env1 booking_due1 (reminder_message booking_due1)
       (reminders_loop services_partial env1 pre1 world2) = (sent1, w1)"
    and l1: "map_of (bookings ?final) ''booking1'' =
       Some (if isl sent1 then booking_due1 else booking_due1\<lparr>reminderSent := Some True\<rparr>)"
    by fastforce
  then have "isl sent1"
    using ex_unreachable [of "reminder_message booking_due1" "reminders_loop services_partial env1 pre1 world2"]
    by simp
  with l1 have first: "map_of (bookings ?final) ''booking1'' = Some booking_due1"
    by simp
  have "(''booking2'', booking_due2) \<in> set (bookings world2)"
    by (simp add: world2_def)
  with each ex_due2(2) obtain pre2 sent2 w2 where
    "dispatch services_partial env1 booking_due2 (reminder_message booking_due2)
       (reminders_loop services_partial env1 pre2 world2) = (sent2, w2)"
    and l2: "map_of (bookings ?final) ''booking2'' =
       Some (if isl sent2 then booking_due2 else booking_due2\<lparr>reminderSent := Some True\<rparr>)"
    by fastforce
  then have "\<not> isl sent2"
    using ex_reachable [of "reminder_message booking_due2" "reminders_loop services_partial env1 pre2 world2"]
    by simp
  with l2 have second: "map_of (bookings ?final) ''booking2'' =
      Some (booking_due2\<lparr>reminderSent := Some True\<rparr>)"
    by simp
  have "(''booking3'', booking1) \<in> set (bookings world2)"
    by (simp add: world2_def)
  with each ex_due2(3) have third: "map_of (bookings ?final) ''booking3'' = Some booking1"
    by fastforce
  from first second third show ?thesis by simp
qed

section \<open>The notification method\<close>

lemma channel_plain: "method_b b \<noteq> Some ''whatsapp'' \<Longrightarrow> channel_sms e b message = plain_sms e b message"
  by (simp add: channel_sms_def)

lemma webhook_sends:
  assumes "authentic sv e req" and "charge_success req bookingRef amt"
    and "map_of (bookings w) bookingRef = Some b"
  shows "\<exists>new. trace (snd (paystackWebhook sv e req w)) = trace w @ new \<and>
           set (attempted new) \<subseteq> {channel_sms e b (confirmation_message b)}"
proof (cases "paymentStatus b = Some ''Paid''")
  case True
  with assms have "paystackWebhook sv e req w = (200, w)" by (rule webhook_paid)
  then have "trace (snd (paystackWebhook sv e req w)) = trace w @ []" by simp
  then show ?thesis by (metis attempted.simps(1) empty_set empty_subsetI)
next
  case False
  obtain new where new: "list_all (attempt_of (channel_sms e b (confirmation_message b))) new"
    "snd (dispatch sv e b (confirmation_message b) w) = w\<lparr>trace := trace w @ new\<rparr>"
    using dispatch_run by blast
  have sends: "set (attempted new) \<subseteq> {channel_sms e b (confirmation_message b)}"
    using new(1) by (rule attempts_are_of)
  show ?thesis
  proof (cases "fst (dispatch sv e b (confirmation_message b) w)")
    case (Inl err)
    with new(2) have "dispatch sv e b (confirmation_message b) w =
        (Inl err, w\<lparr>trace := trace w @ new\<rparr>)"
      by (metis prod.collapse)
    with assms False have "paystackWebhook sv e req w = (500, w\<lparr>trace := trace w @ new\<rparr>)"
      by (rule webhook_not_sent)
    then have "trace (snd (paystackWebhook sv e req w)) = trace w @ new" by simp
    with sends show ?thesis by blast
  next
    case (Inr sid)
    with new(2) have "dispatch sv e b (confirmation_message b) w =
        (Inr sid, w\<lparr>trace := trace w @ new\<rparr>)"
      by (metis prod.collapse)
    with assms False have "paystackWebhook sv e req w =
        (200, apply_write bookingRef (mark_paid amt) (w\<lparr>trace := trace w @ new\<rparr>))"
      by (rule webhook_sent)
    then have "trace (snd (paystackWebhook sv e req w)) = trace w @ (new @ [Db_write bookingRef])"
      by (simp add: apply_write_def)
    moreover have "set (attempted (new @ [Db_write bookingRef])) \<subseteq>
        {channel_sms e b (confirmation_message b)}"
      using sends by (simp add: attempted_append)
    ultimately show ?thesis by blast
  qed
qed

text \<open>A complete request is accepted with any string for its method, which is stored as given.\<close>

lemma createBooking_any_method:
  assumes "\<not> missing_fields i"
    and "validatePhone (js_String (in_clientPhone i)) = Inr phone"
    and "validateEmail (js_String (in_email i)) = Inr email"
    and "map_of (bookings w) (auto_id sv (bookings w)) = None"
    and "paystack sv (trace w @ [Db_write (auto_id sv (bookings w))])
           (initialize_request sv e i (auto_id sv (bookings w))) = Inr d"
  shows "fst (createBooking sv e now (i\<lparr>in_method := Some m\<rparr>) w) = Inr (authorization_url d) \<and>
         (\<exists>b. bookings (snd (createBooking sv e now (i\<lparr>in_method := Some m\<rparr>) w)) =
                 bookings w @ [(auto_id sv (bookings w), b)] \<and> method_b b = Some m)"
proof -
  let ?i = "i\<lparr>in_method := Some m\<rparr>"
  have complete: "\<not> missing_fields ?i"
    using assms(1) by (simp add: missing_fields_def)
  have phone: "validatePhone (js_String (in_clientPhone ?i)) = Inr phone"
    and email: "validateEmail (js_String (in_email ?i)) = Inr email"
    using assms(2,3) by simp_all
  have given: "in_method ?i \<noteq> None"
    by simp
  have answer: "paystack sv (trace w @ [Db_write (auto_id sv (bookings w))])
      (initialize_request sv e ?i (auto_id sv (bookings w))) = Inr d"
    using assms(5) by (simp add: initialize_request_def)
  have "createBooking sv e now ?i w =
     (Inr (authorization_url d),
      \<lparr>bookings = bookings w @ [(auto_id sv (bookings w), stored_booking now ?i phone email)],
       trace = trace w @ [Db_write (auto_id sv (bookings w)),
                Paystack_initialize (initialize_request sv e ?i (auto_id sv (bookings w))) (Inr d)]\<rparr>)"
    using complete phone email given assms(4) answer by (rule createBooking_accepts)
  moreover have "method_b (stored_booking now ?i phone email) = Some m"
    by (simp add: stored_booking_def)
  ultimately show ?thesis by simp
qed

text \<open>
  C10, amended. The method is not validated. A request that is complete and valid but for
  its method is accepted with any string as its method: \<^verbatim>\<open>createBooking\<close> returns the
  gateway's URL and stores the booking with the method as given; and the missing-fields
  guard does not look at the method, whatever it is, absent or not. A confirmation for a
  booking whose method is anything but exactly \<^verbatim>\<open>whatsapp\<close> is sent as a plain message, from
  the SMS sender to the client's phone; every message of a reminder sweep is that of a
  booking of its batch, prefixed for the method \<^verbatim>\<open>whatsapp\<close> and plain for any other; and
  \<^verbatim>\<open>sendMessage\<close> of the variant sends a plain message for any method but \<^verbatim>\<open>whatsapp\<close>.
\<close>

theorem method_is_not_validated:
  "(\<not> missing_fields i \<and> validatePhone (js_String (in_clientPhone i)) = Inr phone \<and>
    validateEmail (js_String (in_email i)) = Inr email \<and>
    map_of (bookings w) (auto_id sv (bookings w)) = None \<and>
    paystack sv (trace w @ [Db_write (auto_id sv (bookings w))])
      (initialize_request sv e i (auto_id sv (bookings w))) = Inr d \<longrightarrow>
      (\<forall>m. fst (createBooking sv e now (i\<lparr>in_method := Some m\<rparr>) w) = Inr (authorization_url d) \<and>
           (\<exists>b. bookings (snd (createBooking sv e now (i\<lparr>in_method := Some m\<rparr>) w)) =
                   bookings w @ [(auto_id sv (bookings w), b)] \<and> method_b b = Some m))) \<and>
   (missing_fields i \<longrightarrow>
      (\<forall>v. createBooking sv e now (i\<lparr>in_method := v\<rparr>) w =
             (Inl (Error ''Missing required fields''), w))) \<and>
   (authentic sv e req \<and> charge_success req bookingRef event_amount \<and>
    map_of (bookings w) bookingRef = Some b \<and> method_b b \<noteq> Some ''whatsapp'' \<longrightarrow>
      (\<exists>new. trace (snd (paystackWebhook sv e req w)) = trace w @ new \<and>
         set (attempted new) \<subseteq>
           {\<lparr>msg_body = confirmation_message b, msg_from = TWILIO_SMS e, msg_to = clientPhone b\<rparr>})) \<and>
   (\<exists>new. trace (sendFiveHourReminders sv e now w) = trace w @ new \<and>
      (\<forall>sent \<in> set (attempted new). \<exists>doc \<in> set (reminder_query now (bookings w)).
         sent = (if method_b (snd doc) = Some ''whatsapp''
                 then whatsapp_sms (snd doc) (reminder_message (snd doc))
                 else \<lparr>msg_body = reminder_message (snd doc), msg_from = TWILIO_SMS e,
                        msg_to = clientPhone (snd doc)\<rparr>))) \<and>
   (method_arg \<noteq> Some ''whatsapp'' \<longrightarrow>
      sendMessage sv e to_phone message method_arg w =
        messages_create sv
          \<lparr>msg_body = message, msg_from = Some (param_value (TWILIO_SMS e)), msg_to = to_phone\<rparr> w)"
proof (intro conjI impI allI)
  fix m
  assume valid: "\<not> missing_fields i \<and> validatePhone (js_String (in_clientPhone i)) = Inr phone \<and>
    validateEmail (js_String (in_email i)) = Inr email \<and>
    map_of (bookings w) (auto_id sv (bookings w)) = None \<and>
    paystack sv (trace w @ [Db_write (auto_id sv (bookings w))])
      (initialize_request sv e i (auto_id sv (bookings w))) = Inr d"
  then have accepted: "fst (createBooking sv e now (i\<lparr>in_method := Some m\<rparr>) w) = Inr (authorization_url d) \<and>
         (\<exists>b. bookings (snd (createBooking sv e now (i\<lparr>in_method := Some m\<rparr>) w)) =
                 bookings w @ [(auto_id sv (bookings w), b)] \<and> method_b b = Some m)"
    by (intro createBooking_any_method) simp_all
  from accepted show "fst (createBooking sv e now (i\<lparr>in_method := Some m\<rparr>) w) = Inr (authorization_url d)"
    by (rule conjunct1)
  from accepted show "\<exists>b. bookings (snd (createBooking sv e now (i\<lparr>in_method := Some m\<rparr>) w)) =
                 bookings w @ [(auto_id sv (bookings w), b)] \<and> method_b b = Some m"
    by (rule conjunct2)
next
  fix v
  assume "missing_fields i"
  then have "missing_fields (i\<lparr>in_method := v\<rparr>)"
    by (simp add: missing_fields_def)
  then show "createBooking sv e now (i\<lparr>in_method := v\<rparr>) w =
      (Inl (Error ''Missing required fields''), w)"
    by (rule createBooking_missing)
next
  assume h: "authentic sv e req \<and> charge_success req bookingRef event_amount \<and>
    map_of (bookings w) bookingRef = Some b \<and> method_b b \<noteq> Some ''whatsapp''"
  then have "channel_sms e b (confirmation_message b) =
      \<lparr>msg_body = confirmation_message b, msg_from = TWILIO_SMS e, msg_to = clientPhone b\<rparr>"
    by (simp add: channel_plain plain_sms_def)
  with webhook_sends [of sv e req bookingRef event_amount w b] h
  show "\<exists>new. trace (snd (paystackWebhook sv e req w)) = trace w @ new \<and>
         set (attempted new) \<subseteq>
           {\<lparr>msg_body = confirmation_message b, msg_from = TWILIO_SMS e, msg_to = clientPhone b\<rparr>}"
    by simp
next
  show "\<exists>new. trace (sendFiveHourReminders sv e now w) = trace w @ new \<and>
      (\<forall>sent \<in> set (attempted new). \<exists>doc \<in> set (reminder_query now (bookings w)).
         sent = (if method_b (snd doc) = Some ''whatsapp''
                 then whatsapp_sms (snd doc) (reminder_message (snd doc))
                 else \<lparr>msg_body = reminder_message (snd doc), msg_from = TWILIO_SMS e,
                        msg_to = clientPhone (snd doc)\<rparr>))"
    unfolding sendFiveHourReminders_def
    by (rule reminders_loop_sends [of sv e "reminder_query now (bookings w)" w,
          unfolded channel_sms_def plain_sms_def])
next
  assume "method_arg \<noteq> Some ''whatsapp''"
  then show "sendMessage sv e to_phone message method_arg w =
        messages_create sv
          \<lparr>msg_body = message, msg_from = Some (param_value (TWILIO_SMS e)), msg_to = to_phone\<rparr> w"
    by (cases method_arg) (simp_all add: sendMessage_def)
qed

theorem method_is_not_validated_witness:
  "fst (createBooking services_up env1 2000 (input1\<lparr>in_method := Some ''carrier pigeon''\<rparr>) world1) =
     Inr (authorization_url gateway_reply) \<and>
   (\<exists>b. bookings (snd (createBooking services_up env1 2000
                        (input1\<lparr>in_method := Some ''carrier pigeon''\<rparr>) world1)) =
           bookings world1 @ [(auto_id services_up (bookings world1), b)] \<and>
         method_b b = Some ''carrier pigeon'') \<and>
   (\<exists>new. trace (snd (paystackWebhook services_up env1 charge_request world1)) = trace world1 @ new \<and>
      set (attempted new) \<subseteq>
        {\<lparr>msg_body = confirmation_message booking1, msg_from = TWILIO_SMS env1,
          msg_to = clientPhone booking1\<rparr>}) \<and>
   sendMessage services_up env1 (Some ''+27821234567'') ''hello'' None world1 =
     messages_create services_up
       \<lparr>msg_body = ''hello'', msg_from = Some (param_value (TWILIO_SMS env1)),
        msg_to = Some ''+27821234567''\<rparr> world1"
proof -
  have valid: "\<not> missing_fields input1 \<and>
      validatePhone (js_String (in_clientPhone input1)) = Inr ''+27821234567'' \<and>
      validateEmail (js_String (in_email input1)) = Inr ''thandi@example.com'' \<and>
      map_of (bookings world1) (auto_id services_up (bookings world1)) = None \<and>
      paystack services_up (trace world1 @ [Db_write (auto_id services_up (bookings world1))])
        (initialize_request services_up env1 input1 (auto_id services_up (bookings world1))) =
        Inr gateway_reply"
    using ex_complete [of "in_method input1"] ex_valid [of "in_method input1"] ex_fresh
    by (simp add: services_up_def)
  have h: "authentic services_up env1 charge_request \<and> charge_success charge_request ''booking1'' 5000 \<and>
      map_of (bookings world1) ''booking1'' = Some booking1 \<and> method_b booking1 \<noteq> Some ''whatsapp''"
    using ex_authentic ex_charge ex_lookup ex_sms by simp
  have n: "(None :: string option) \<noteq> Some ''whatsapp''"
    by simp
  from method_is_not_validated [where sv = services_up and e = env1 and now = 2000 and i = input1
      and phone = "''+27821234567''" and email = "''thandi@example.com''" and d = gateway_reply
      and w = world1 and req = charge_request
      and bookingRef = "''booking1''" and event_amount = 5000 and b = booking1
      and method_arg = None and to_phone = "Some ''+27821234567''" and message = "''hello''"]
    valid h n
  show ?thesis
    by blast
qed

text \<open>
  C10 does not extend to a request without a method: a request that is complete and valid
  but has no method is refused by the store, and nothing is written.
\<close>

theorem method_absent_counterexample:
  "all_present (input1\<lparr>in_method := None\<rparr>) \<and> in_method (input1\<lparr>in_method := None\<rparr>) = None \<and>
   validatePhone (js_String (in_clientPhone (input1\<lparr>in_method := None\<rparr>))) = Inr ''+27821234567'' \<and>
   validateEmail (js_String (in_email (input1\<lparr>in_method := None\<rparr>))) = Inr ''thandi@example.com'' \<and>
   createBooking services_up env1 2000 (input1\<lparr>in_method := None\<rparr>) world1 =
     (Inl (undefined_value_error ''method''), world1)"
proof -
  have "createBooking services_up env1 2000 (input1\<lparr>in_method := None\<rparr>) world1 =
     (Inl (undefined_value_error ''method''), world1)"
    by (rule createBooking_no_method [OF ex_complete ex_valid]) simp
  moreover have "all_present (input1\<lparr>in_method := None\<rparr>)"
    by (simp add: all_present_def input1_def)
  ultimately show ?thesis
    using ex_valid [of None] by simp
qed

end
